theory Spec2Isabelle
  imports Main "HOL-Library.Sublist"
begin

section \<open>Values of the Python program\<close>

text \<open>
  The server of \<^verbatim>\<open>fda_mcp_server.py\<close> moves JSON values between its caller, the
  openFDA endpoints and its own projections. A Python \<^verbatim>\<open>str\<close> is modelled as a list
  of code points below 256, a \<^verbatim>\<open>dict\<close> as an association list in insertion order
  (a key is looked up at its first entry), a JSON number as an integer (floating
  point numbers are outside the model).
\<close>

datatype json =
    JNull
  | JBool bool
  | JInt int
  | JStr string
  | JArr "json list"
  | JObj "(string \<times> json) list"

text \<open>
  The exceptions that the modelled code can raise, each with what \<^verbatim>\<open>str(e)\<close> needs.
  \<open>UpstreamError\<close> stands for whatever \<^verbatim>\<open>client.get\<close>,
  \<^verbatim>\<open>raise_for_status\<close> or \<^verbatim>\<open>response.json\<close> raise, with its message, and
  \<open>ValidationError\<close> for what the constructor of a result class raises on contents
  that it does not accept. All of them are subclasses of \<^verbatim>\<open>Exception\<close>.
\<close>

datatype exn =
    KeyError string
  | AttributeError string string
  | TypeError string
  | ValueError string
  | UpstreamError string
  | ValidationError string

definition exn_str :: "exn \<Rightarrow> string" where
  "exn_str e =
     (case e of
        KeyError k \<Rightarrow> [CHR 0x27] @ k @ [CHR 0x27]
      | AttributeError ty attr \<Rightarrow>
          [CHR 0x27] @ ty @ [CHR 0x27] @ '' object has no attribute '' @ [CHR 0x27] @ attr @ [CHR 0x27]
      | TypeError m \<Rightarrow> m
      | ValueError m \<Rightarrow> m
      | UpstreamError m \<Rightarrow> m
      | ValidationError m \<Rightarrow> m)"

definition bind :: "exn + 'a \<Rightarrow> ('a \<Rightarrow> exn + 'b) \<Rightarrow> exn + 'b" where
  "bind m f = (case m of Inl e \<Rightarrow> Inl e | Inr x \<Rightarrow> f x)"

fun mapM :: "('a \<Rightarrow> exn + 'b) \<Rightarrow> 'a list \<Rightarrow> exn + 'b list" where
  "mapM f [] = Inr []"
| "mapM f (x # xs) = bind (f x) (\<lambda>y. bind (mapM f xs) (\<lambda>ys. Inr (y # ys)))"

definition type_name :: "json \<Rightarrow> string" where
  "type_name v =
     (case v of
        JNull \<Rightarrow> ''NoneType''
      | JBool _ \<Rightarrow> ''bool''
      | JInt _ \<Rightarrow> ''int''
      | JStr _ \<Rightarrow> ''str''
      | JArr _ \<Rightarrow> ''list''
      | JObj _ \<Rightarrow> ''dict'')"

text \<open>\<^verbatim>\<open>d.get(key, default)\<close>: only a dict has the method.\<close>

definition py_get :: "json \<Rightarrow> string \<Rightarrow> json \<Rightarrow> exn + json" where
  "py_get d k dflt =
     (case d of
        JObj kvs \<Rightarrow> Inr (case map_of kvs k of Some v \<Rightarrow> v | None \<Rightarrow> dflt)
      | _ \<Rightarrow> Inl (AttributeError (type_name d) ''get''))"

text \<open>\<^verbatim>\<open>arguments[key]\<close> and \<^verbatim>\<open>arguments.get(key, default)\<close> on the argument dict.\<close>

definition args_item :: "(string \<times> json) list \<Rightarrow> string \<Rightarrow> exn + json" where
  "args_item args k = (case map_of args k of Some v \<Rightarrow> Inr v | None \<Rightarrow> Inl (KeyError k))"

definition args_get :: "(string \<times> json) list \<Rightarrow> string \<Rightarrow> json \<Rightarrow> json" where
  "args_get args k dflt = (case map_of args k of Some v \<Rightarrow> v | None \<Rightarrow> dflt)"

text \<open>Truth value of an object, as \<^verbatim>\<open>if x:\<close> tests it.\<close>

definition truthy :: "json \<Rightarrow> bool" where
  "truthy v =
     (case v of
        JNull \<Rightarrow> False
      | JBool b \<Rightarrow> b
      | JInt n \<Rightarrow> n \<noteq> 0
      | JStr s \<Rightarrow> s \<noteq> []
      | JArr xs \<Rightarrow> xs \<noteq> []
      | JObj kvs \<Rightarrow> kvs \<noteq> [])"

text \<open>
  \<^verbatim>\<open>min(limit, cap)\<close> with an integer \<open>cap\<close>: Python keeps \<open>limit\<close> unless
  \<^verbatim>\<open>cap < limit\<close>; a \<^verbatim>\<open>bool\<close> compares as 0 or 1 and is returned as it is;
  the comparison raises for every other type.
\<close>

definition py_min :: "json \<Rightarrow> int \<Rightarrow> exn + json" where
  "py_min limit cap =
     (case limit of
        JInt n \<Rightarrow> Inr (if cap < n then JInt cap else JInt n)
      | JBool b \<Rightarrow> Inr (if cap < (if b then 1 else 0) then JInt cap else JBool b)
      | _ \<Rightarrow> Inl (TypeError ([CHR 0x27] @ ''<'' @ [CHR 0x27] @
                '' not supported between instances of '' @ [CHR 0x27] @ ''int'' @ [CHR 0x27] @
                '' and '' @ [CHR 0x27] @ type_name limit @ [CHR 0x27])))"

text \<open>
  \<^verbatim>\<open>xs[:n]\<close> on a list: the first \<open>n\<close> elements, and all but the last \<open>-n\<close>
  ones when \<open>n\<close> is negative.
\<close>

definition slice_to :: "'a list \<Rightarrow> int \<Rightarrow> 'a list" where
  "slice_to xs n = (if 0 \<le> n then take (nat n) xs else take (nat (int (length xs) + n)) xs)"

text \<open>
  The elements that \<^verbatim>\<open>for x in v[:limit]\<close> visits. \<open>limit\<close> has passed
  \<open>py_min\<close>, so it is an \<^verbatim>\<open>int\<close> or a \<^verbatim>\<open>bool\<close> (a bound \<^verbatim>\<open>None\<close> would
  keep the whole sequence). A string is sliced and read
  character by character; a dict cannot be sliced (\<^verbatim>\<open>TypeError\<close> up to Python 3.11,
  \<^verbatim>\<open>KeyError\<close> from 3.12 on: an exception in both).
\<close>

definition index_of :: "json \<Rightarrow> exn + int option" where
  "index_of limit =
     (case limit of
        JInt n \<Rightarrow> Inr (Some n)
      | JBool b \<Rightarrow> Inr (Some (if b then 1 else 0))
      | JNull \<Rightarrow> Inr None
      | _ \<Rightarrow> Inl (TypeError ''slice indices must be integers or None or have an __index__ method''))"

definition slice_opt :: "'a list \<Rightarrow> int option \<Rightarrow> 'a list" where
  "slice_opt xs b = (case b of None \<Rightarrow> xs | Some n \<Rightarrow> slice_to xs n)"

definition py_slice_to :: "json \<Rightarrow> json \<Rightarrow> exn + json list" where
  "py_slice_to v limit =
     (case v of
        JArr xs \<Rightarrow> bind (index_of limit) (\<lambda>b. Inr (slice_opt xs b))
      | JStr s \<Rightarrow> bind (index_of limit) (\<lambda>b. Inr (map (\<lambda>c. JStr [c]) (slice_opt s b)))
      | JObj _ \<Rightarrow> Inl (TypeError (''unhashable type: '' @ [CHR 0x27] @ ''slice'' @ [CHR 0x27]))
      | _ \<Rightarrow> Inl (TypeError ([CHR 0x27] @ type_name v @ [CHR 0x27] @ '' object is not subscriptable'')))"

text \<open>The elements that \<^verbatim>\<open>for x in v\<close> visits: a dict yields its keys.\<close>

definition py_iter :: "json \<Rightarrow> exn + json list" where
  "py_iter v =
     (case v of
        JArr xs \<Rightarrow> Inr xs
      | JStr s \<Rightarrow> Inr (map (\<lambda>c. JStr [c]) s)
      | JObj kvs \<Rightarrow> Inr (map (\<lambda>kv. JStr (fst kv)) kvs)
      | _ \<Rightarrow> Inl (TypeError ([CHR 0x27] @ type_name v @ [CHR 0x27] @ '' object is not iterable'')))"

section \<open>Strings\<close>

definition hex_digit :: "nat \<Rightarrow> char" where
  "hex_digit n = ''0123456789abcdef'' ! (n mod 16)"

definition hex2 :: "char \<Rightarrow> string" where
  "hex2 c = [hex_digit ((of_char c :: nat) div 16), hex_digit ((of_char c :: nat) mod 16)]"

fun dec_nat :: "nat \<Rightarrow> string" where
  "dec_nat n = (if n < 10 then [hex_digit n] else dec_nat (n div 10) @ [hex_digit (n mod 10)])"

declare dec_nat.simps [simp del]

definition dec_int :: "int \<Rightarrow> string" where
  "dec_int i = (if i < 0 then CHR ''-'' # dec_nat (nat (- i)) else dec_nat (nat i))"

text \<open>\<^verbatim>\<open>sep.join(xs)\<close>.\<close>

fun str_join :: "string \<Rightarrow> string list \<Rightarrow> string" where
  "str_join sep [] = []"
| "str_join sep [x] = x"
| "str_join sep (x # y # ys) = x @ sep @ str_join sep (y # ys)"

text \<open>
  \<^verbatim>\<open>s.replace(old, new)\<close>: the occurrences of \<open>old\<close> are replaced from left to
  right, without overlap.
\<close>

function str_replace :: "string \<Rightarrow> string \<Rightarrow> string \<Rightarrow> string" where
  "str_replace old new [] = (if old = [] then new else [])"
| "str_replace old new (c # cs) =
     (if old = [] then new @ c # str_replace old new cs
      else if prefix old (c # cs) then new @ str_replace old new (drop (length old) (c # cs))
      else c # str_replace old new cs)"
  by pat_completeness auto
termination
  by (relation "measure (\<lambda>(old, new, s). length s)") auto

text \<open>
  \<^verbatim>\<open>s.split(sep)\<close> for a separator that is not empty (Python raises
  \<^verbatim>\<open>ValueError\<close> for the empty one; the source passes a literal comma).
\<close>

function str_split :: "string \<Rightarrow> string \<Rightarrow> string list" where
  "str_split sep [] = [[]]"
| "str_split sep (c # cs) =
     (if sep \<noteq> [] \<and> prefix sep (c # cs) then [] # str_split sep (drop (length sep) (c # cs))
      else (case str_split sep cs of [] \<Rightarrow> [[c]] | w # ws \<Rightarrow> (c # w) # ws))"
  by pat_completeness auto
termination
  by (relation "measure (\<lambda>(sep, s). length s)") auto

text \<open>
  \<^verbatim>\<open>s.strip()\<close> removes the white space at both ends; among the code points below
  256 that is 9 to 13, 28 to 32, 133 and 160.
\<close>

definition is_space :: "char \<Rightarrow> bool" where
  "is_space c =
     (let n = (of_char c :: nat)
      in (9 \<le> n \<and> n \<le> 13) \<or> (28 \<le> n \<and> n \<le> 32) \<or> n = 133 \<or> n = 160)"

definition str_strip :: "string \<Rightarrow> string" where
  "str_strip s = rev (dropWhile is_space (rev (dropWhile is_space s)))"

text \<open>\<^verbatim>\<open>sub in s\<close> on strings.\<close>

fun contains :: "string \<Rightarrow> string \<Rightarrow> bool" where
  "contains sub [] = (sub = [])"
| "contains sub (c # cs) = (prefix sub (c # cs) \<or> contains sub cs)"

text \<open>
  \<^verbatim>\<open>repr\<close> of a string: single quotes, unless the string has a single quote and
  no double quote; the quote and the backslash are escaped, tab, newline and
  carriage return are written with their letter, and the code points that are not
  printable (below 32, 127 to 160, 173) as \<^verbatim>\<open>\xhh\<close>.
\<close>

definition repr_char :: "char \<Rightarrow> char \<Rightarrow> string" where
  "repr_char quote c =
     (let n = (of_char c :: nat)
      in if c = quote \<or> c = CHR 0x5C then [CHR 0x5C, c]
         else if n = 9 then [CHR 0x5C, CHR ''t'']
         else if n = 10 then [CHR 0x5C, CHR ''n'']
         else if n = 13 then [CHR 0x5C, CHR ''r'']
         else if n < 32 \<or> (127 \<le> n \<and> n \<le> 160) \<or> n = 173 then [CHR 0x5C, CHR ''x''] @ hex2 c
         else [c])"

definition repr_str :: "string \<Rightarrow> string" where
  "repr_str s =
     (let quote = (if CHR 0x27 \<in> set s \<and> CHR 0x22 \<notin> set s then CHR 0x22 else CHR 0x27)
      in quote # concat (map (repr_char quote) s) @ [quote])"

fun py_repr :: "json \<Rightarrow> string" where
  "py_repr JNull = ''None''"
| "py_repr (JBool b) = (if b then ''True'' else ''False'')"
| "py_repr (JInt n) = dec_int n"
| "py_repr (JStr s) = repr_str s"
| "py_repr (JArr xs) = ''['' @ str_join '', '' (map py_repr xs) @ '']''"
| "py_repr (JObj kvs) =
     ''{'' @ str_join '', '' (map (\<lambda>kv. repr_str (fst kv) @ '': '' @ py_repr (snd kv)) kvs) @ ''}''"

text \<open>What an f-string puts for \<^verbatim>\<open>{v}\<close>: \<^verbatim>\<open>str(v)\<close>.\<close>

definition py_str :: "json \<Rightarrow> string" where
  "py_str v = (case v of JStr s \<Rightarrow> s | _ \<Rightarrow> py_repr v)"

text \<open>
  \<^verbatim>\<open>json.dumps(v, indent=2)\<close>: items on lines of their own, two spaces per level,
  \<^verbatim>\<open>", "\<close> never used, \<^verbatim>\<open>": "\<close> after a key; every code point outside
  the printable ASCII range is escaped.
\<close>

definition json_escape_char :: "char \<Rightarrow> string" where
  "json_escape_char c =
     (let n = (of_char c :: nat)
      in if c = CHR 0x22 then [CHR 0x5C, CHR 0x22]
         else if c = CHR 0x5C then [CHR 0x5C, CHR 0x5C]
         else if n = 8 then [CHR 0x5C, CHR ''b'']
         else if n = 12 then [CHR 0x5C, CHR ''f'']
         else if n = 10 then [CHR 0x5C, CHR ''n'']
         else if n = 13 then [CHR 0x5C, CHR ''r'']
         else if n = 9 then [CHR 0x5C, CHR ''t'']
         else if n < 32 \<or> 126 < n then [CHR 0x5C, CHR ''u'', CHR ''0'', CHR ''0''] @ hex2 c
         else [c])"

definition json_string :: "string \<Rightarrow> string" where
  "json_string s = CHR 0x22 # concat (map json_escape_char s) @ [CHR 0x22]"

definition newline_indent :: "nat \<Rightarrow> string" where
  "newline_indent level = CHR 0x0A # replicate (2 * level) CHR '' ''"

fun dumps_at :: "nat \<Rightarrow> json \<Rightarrow> string" where
  "dumps_at level JNull = ''null''"
| "dumps_at level (JBool b) = (if b then ''true'' else ''false'')"
| "dumps_at level (JInt n) = dec_int n"
| "dumps_at level (JStr s) = json_string s"
| "dumps_at level (JArr xs) =
     (if xs = [] then ''[]''
      else ''['' @ newline_indent (Suc level) @
           str_join ('','' @ newline_indent (Suc level)) (map (dumps_at (Suc level)) xs) @
           newline_indent level @ '']'')"
| "dumps_at level (JObj kvs) =
     (if kvs = [] then ''{}''
      else ''{'' @ newline_indent (Suc level) @
           str_join ('','' @ newline_indent (Suc level))
             (map (\<lambda>kv. json_string (fst kv) @ '': '' @ dumps_at (Suc level) (snd kv)) kvs) @
           newline_indent level @ ''}'')"

definition json_dumps :: "json \<Rightarrow> string" where
  "json_dumps v = dumps_at 0 v"

section \<open>The openFDA client and the protocol results\<close>

text \<open>
  One request is \<^verbatim>\<open>client.get(url, params=params)\<close>, \<^verbatim>\<open>raise_for_status()\<close> and
  \<^verbatim>\<open>response.json()\<close>: it changes the world outside and gives the decoded body,
  or raises. The client is a parameter of the model.
\<close>

type_synonym params = "(string \<times> json) list"

type_synonym 'w client = "string \<Rightarrow> params \<Rightarrow> 'w \<Rightarrow> (exn + json) \<times> 'w"

text \<open>The lines written through \<^verbatim>\<open>logger\<close>: level and message, oldest first.\<close>

type_synonym log = "(string \<times> string) list"

definition FDA_BASE_URL :: string where
  "FDA_BASE_URL = ''https://api.fda.gov/drug/event.json''"

definition FDA_DRUG_LABEL_URL :: string where
  "FDA_DRUG_LABEL_URL = ''https://api.fda.gov/drug/label.json''"

definition FDA_ENFORCEMENT_URL :: string where
  "FDA_ENFORCEMENT_URL = ''https://api.fda.gov/drug/enforcement.json''"

record TextContent =
  type :: string
  text_value :: string

record CallToolResult =
  content :: "TextContent list"
  isError :: bool

record PromptMessage =
  role :: string
  message_content :: TextContent

record GetPromptResult =
  description :: string
  messages :: "PromptMessage list"

definition text_content :: "string \<Rightarrow> TextContent" where
  "text_content s = \<lparr>type = ''text'', text_value = s\<rparr>"

text \<open>\<^verbatim>\<open>data.get("meta", {}).get("results", {}).get("total", 0)\<close>.\<close>

definition total_results :: "json \<Rightarrow> exn + json" where
  "total_results data =
     bind (py_get data ''meta'' (JObj [])) (\<lambda>meta.
     bind (py_get meta ''results'' (JObj [])) (\<lambda>results.
     py_get results ''total'' (JInt 0)))"

text \<open>The result of a tool that did not raise: one text, \<^verbatim>\<open>isError\<close> left at its default.\<close>

definition tool_result :: "json \<Rightarrow> CallToolResult" where
  "tool_result result = \<lparr>content = [text_content (json_dumps result)], isError = False\<rparr>"

section \<open>The tool \<^verbatim>\<open>search_drug_events\<close>\<close>

text \<open>
  Lines 273 to 286 of \<^verbatim>\<open>_search_drug_events\<close>: the requested limit and the
  parameters of the request.
\<close>

definition events_params :: "(string \<times> json) list \<Rightarrow> exn + json \<times> params" where
  "events_params arguments =
     bind (args_item arguments ''drug_name'') (\<lambda>drug_name.
       let limit = args_get arguments ''limit'' (JInt 10);
           date_range = args_get arguments ''date_range'' JNull;
           search_query = ''patient.drug.medicinalproduct:'' @ [CHR 0x22] @ py_str drug_name @ [CHR 0x22]
       in bind (py_min limit 100) (\<lambda>capped.
          bind (if truthy date_range
                then (case date_range of
                        JStr s \<Rightarrow> Inr (search_query @ '' AND receivedate:['' @
                                       str_replace ''_to_'' '' TO '' s @ '']'')
                      | _ \<Rightarrow> Inl (AttributeError (type_name date_range) ''replace''))
                else Inr search_query) (\<lambda>search.
          Inr (limit, [(''search'', JStr search), (''limit'', capped)]))))"

text \<open>Lines 298 to 315: the projection of one upstream event.\<close>

definition process_event :: "json \<Rightarrow> exn + json" where
  "process_event event =
     bind (py_get event ''safetyreportid'' (JStr ''Unknown'')) (\<lambda>report_id.
     bind (py_get event ''receivedate'' (JStr ''Unknown'')) (\<lambda>receive_date.
     bind (py_get event ''serious'' (JStr ''Unknown'')) (\<lambda>serious.
     bind (bind (py_get event ''patient'' (JObj []))
             (\<lambda>patient. py_get patient ''patientonsetage'' (JStr ''Unknown''))) (\<lambda>patient_age.
     bind (bind (py_get event ''patient'' (JObj []))
             (\<lambda>patient. py_get patient ''patientsex'' (JStr ''Unknown''))) (\<lambda>patient_sex.
     bind (bind (bind (py_get event ''patient'' (JObj []))
             (\<lambda>patient. py_get patient ''reaction'' (JArr [])))
             (\<lambda>rs. bind (py_iter rs)
                (mapM (\<lambda>reaction. py_get reaction ''reactionmeddrapt'' (JStr ''Unknown''))))) (\<lambda>reactions.
     bind (bind (bind (py_get event ''patient'' (JObj []))
             (\<lambda>patient. py_get patient ''drug'' (JArr [])))
             (\<lambda>ds. bind (py_iter ds)
                (mapM (\<lambda>drug.
                   bind (py_get drug ''medicinalproduct'' (JStr ''Unknown'')) (\<lambda>name.
                   bind (py_get drug ''drugindication'' (JStr ''Unknown'')) (\<lambda>indication.
                   Inr (JObj [(''name'', name), (''indication'', indication)]))))))) (\<lambda>drugs.
     Inr (JObj [(''report_id'', report_id),
                (''receive_date'', receive_date),
                (''serious'', serious),
                (''patient_age'', patient_age),
                (''patient_sex'', patient_sex),
                (''reactions'', JArr reactions),
                (''drugs'', JArr drugs)]))))))))"

text \<open>Lines 294 to 321: the envelope built from the decoded body.\<close>

definition events_result :: "json \<Rightarrow> json \<Rightarrow> exn + json" where
  "events_result limit data =
     bind (py_get data ''results'' (JArr [])) (\<lambda>events.
     bind (py_slice_to events limit) (\<lambda>sliced.
     bind (mapM process_event sliced) (\<lambda>processed_events.
     bind (total_results data) (\<lambda>total.
     Inr (JObj [(''total_results'', total), (''events'', JArr processed_events)])))))"

definition search_drug_events ::
  "'w client \<Rightarrow> (string \<times> json) list \<Rightarrow> 'w \<Rightarrow> (exn + CallToolResult) \<times> 'w" where
  "search_drug_events client arguments w =
     (case events_params arguments of
        Inl e \<Rightarrow> (Inl e, w)
      | Inr (limit, params) \<Rightarrow>
          (case client FDA_BASE_URL params w of
             (Inl e, w') \<Rightarrow> (Inl e, w')
           | (Inr data, w') \<Rightarrow>
               (bind (events_result limit data) (\<lambda>result. Inr (tool_result result)), w')))"

section \<open>The tool \<^verbatim>\<open>get_drug_label_info\<close>\<close>

definition label_search :: "string \<Rightarrow> string" where
  "label_search drug =
     ''openfda.brand_name:'' @ [CHR 0x22] @ drug @ [CHR 0x22] @
     '' OR openfda.generic_name:'' @ [CHR 0x22] @ drug @ [CHR 0x22]"

definition label_params :: "(string \<times> json) list \<Rightarrow> exn + json \<times> params" where
  "label_params arguments =
     bind (args_item arguments ''drug_name'') (\<lambda>drug_name.
       let limit = args_get arguments ''limit'' (JInt 5)
       in bind (py_min limit 50) (\<lambda>capped.
          Inr (limit, [(''search'', JStr (label_search (py_str drug_name))), (''limit'', capped)])))"

text \<open>Lines 349 to 361: the projection of one upstream label.\<close>

definition process_label :: "json \<Rightarrow> exn + json" where
  "process_label label =
     bind (py_get label ''openfda'' (JObj [])) (\<lambda>openfda.
     bind (py_get openfda ''brand_name'' (JArr [])) (\<lambda>brand_names.
     bind (py_get openfda ''generic_name'' (JArr [])) (\<lambda>generic_names.
     bind (py_get openfda ''manufacturer_name'' (JArr [])) (\<lambda>manufacturer.
     bind (py_get openfda ''substance_name'' (JArr [])) (\<lambda>substance_names.
     bind (py_get openfda ''product_type'' (JArr [])) (\<lambda>product_type.
     bind (py_get openfda ''route'' (JArr [])) (\<lambda>route.
     bind (py_get label ''indications_and_usage'' (JArr [JStr ''Not available''])) (\<lambda>indications_and_usage.
     bind (py_get label ''warnings'' (JArr [JStr ''Not available''])) (\<lambda>warnings.
     bind (py_get label ''adverse_reactions'' (JArr [JStr ''Not available''])) (\<lambda>adverse_reactions.
     bind (py_get label ''dosage_and_administration'' (JArr [JStr ''Not available''])) (\<lambda>dosage_and_administration.
     Inr (JObj [(''brand_names'', brand_names),
                (''generic_names'', generic_names),
                (''manufacturer'', manufacturer),
                (''substance_names'', substance_names),
                (''product_type'', product_type),
                (''route'', route),
                (''indications_and_usage'', indications_and_usage),
                (''warnings'', warnings),
                (''adverse_reactions'', adverse_reactions),
                (''dosage_and_administration'', dosage_and_administration)]))))))))))))"

definition label_result :: "json \<Rightarrow> json \<Rightarrow> exn + json" where
  "label_result limit data =
     bind (py_get data ''results'' (JArr [])) (\<lambda>labels.
     bind (py_slice_to labels limit) (\<lambda>sliced.
     bind (mapM process_label sliced) (\<lambda>processed_labels.
     bind (total_results data) (\<lambda>total.
     Inr (JObj [(''total_results'', total), (''labels'', JArr processed_labels)])))))"

definition get_drug_label_info ::
  "'w client \<Rightarrow> (string \<times> json) list \<Rightarrow> 'w \<Rightarrow> (exn + CallToolResult) \<times> 'w" where
  "get_drug_label_info client arguments w =
     (case label_params arguments of
        Inl e \<Rightarrow> (Inl e, w)
      | Inr (limit, params) \<Rightarrow>
          (case client FDA_DRUG_LABEL_URL params w of
             (Inl e, w') \<Rightarrow> (Inl e, w')
           | (Inr data, w') \<Rightarrow>
               (bind (label_result limit data) (\<lambda>result. Inr (tool_result result)), w')))"

section \<open>The tool \<^verbatim>\<open>search_drug_recalls\<close>\<close>

definition recall_params :: "(string \<times> json) list \<Rightarrow> exn + json \<times> params" where
  "recall_params arguments =
     bind (args_item arguments ''drug_name'') (\<lambda>drug_name.
       let classification = args_get arguments ''classification'' JNull;
           limit = args_get arguments ''limit'' (JInt 10);
           search_parts =
             [''product_description:'' @ [CHR 0x22] @ py_str drug_name @ [CHR 0x22]] @
             (if truthy classification
              then [''classification:'' @ [CHR 0x22] @ py_str classification @ [CHR 0x22]]
              else [])
       in bind (py_min limit 100) (\<lambda>capped.
          Inr (limit, [(''search'', JStr (str_join '' AND '' search_parts)), (''limit'', capped)])))"

definition process_recall :: "json \<Rightarrow> exn + json" where
  "process_recall recall =
     bind (py_get recall ''recall_number'' (JStr ''Unknown'')) (\<lambda>recall_number.
     bind (py_get recall ''product_description'' (JStr ''Unknown'')) (\<lambda>product_description.
     bind (py_get recall ''reason_for_recall'' (JStr ''Unknown'')) (\<lambda>reason_for_recall.
     bind (py_get recall ''classification'' (JStr ''Unknown'')) (\<lambda>classification.
     bind (py_get recall ''status'' (JStr ''Unknown'')) (\<lambda>status.
     bind (py_get recall ''recall_initiation_date'' (JStr ''Unknown'')) (\<lambda>recall_initiation_date.
     bind (py_get recall ''recalling_firm'' (JStr ''Unknown'')) (\<lambda>firm_name.
     bind (py_get recall ''distribution_pattern'' (JStr ''Unknown'')) (\<lambda>distribution_pattern.
     Inr (JObj [(''recall_number'', recall_number),
                (''product_description'', product_description),
                (''reason_for_recall'', reason_for_recall),
                (''classification'', classification),
                (''status'', status),
                (''recall_initiation_date'', recall_initiation_date),
                (''firm_name'', firm_name),
                (''distribution_pattern'', distribution_pattern)])))))))))"

definition recall_result :: "json \<Rightarrow> json \<Rightarrow> exn + json" where
  "recall_result limit data =
     bind (py_get data ''results'' (JArr [])) (\<lambda>recalls.
     bind (py_slice_to recalls limit) (\<lambda>sliced.
     bind (mapM process_recall sliced) (\<lambda>processed_recalls.
     bind (total_results data) (\<lambda>total.
     Inr (JObj [(''total_results'', total), (''recalls'', JArr processed_recalls)])))))"

definition search_drug_recalls ::
  "'w client \<Rightarrow> (string \<times> json) list \<Rightarrow> 'w \<Rightarrow> (exn + CallToolResult) \<times> 'w" where
  "search_drug_recalls client arguments w =
     (case recall_params arguments of
        Inl e \<Rightarrow> (Inl e, w)
      | Inr (limit, params) \<Rightarrow>
          (case client FDA_ENFORCEMENT_URL params w of
             (Inl e, w') \<Rightarrow> (Inl e, w')
           | (Inr data, w') \<Rightarrow>
               (bind (recall_result limit data) (\<lambda>result. Inr (tool_result result)), w')))"

section \<open>Dispatch of a tool call\<close>

text \<open>
  \<^verbatim>\<open>handle_call_tool\<close>: the three names, \<^verbatim>\<open>ValueError\<close> for any other, and
  \<^verbatim>\<open>except Exception\<close> around all of it, which logs and answers with an error
  result.
\<close>

definition call_tool_body ::
  "'w client \<Rightarrow> string \<Rightarrow> (string \<times> json) list \<Rightarrow> 'w \<Rightarrow> (exn + CallToolResult) \<times> 'w" where
  "call_tool_body client name arguments w =
     (if name = ''search_drug_events'' then search_drug_events client arguments w
      else if name = ''get_drug_label_info'' then get_drug_label_info client arguments w
      else if name = ''search_drug_recalls'' then search_drug_recalls client arguments w
      else (Inl (ValueError (''Unknown tool: '' @ name)), w))"

definition handle_call_tool ::
  "'w client \<Rightarrow> string \<Rightarrow> (string \<times> json) list \<Rightarrow> 'w \<times> log \<Rightarrow> CallToolResult \<times> 'w \<times> log" where
  "handle_call_tool client name arguments st =
     (case call_tool_body client name arguments (fst st) of
        (Inr result, w') \<Rightarrow> (result, w', snd st)
      | (Inl e, w') \<Rightarrow>
          (\<lparr>content = [text_content (''Error: '' @ exn_str e)], isError = True\<rparr>,
           w',
           snd st @ [(''ERROR'', ''Error calling tool '' @ name @ '': '' @ exn_str e)]))"

section \<open>Resources\<close>

text \<open>
  \<^verbatim>\<open>datetime.now()\<close> is read as the number of the current day, counted from
  1970-01-01; \<^verbatim>\<open>timedelta(days=30)\<close> subtracts 30 from it, and
  \<^verbatim>\<open>strftime('%Y%m%d')\<close> prints the civil date of a day number (four, two and two
  digits for the years 1000 to 9999).
\<close>

definition civil_from_days :: "int \<Rightarrow> int \<times> int \<times> int" where
  "civil_from_days day =
     (let z = day + 719468;
          era = z div 146097;
          doe = z mod 146097;
          yoe = (doe - doe div 1460 + doe div 36524 - doe div 146096) div 365;
          doy = doe - (365 * yoe + yoe div 4 - yoe div 100);
          mp = (5 * doy + 2) div 153;
          d = doy - (153 * mp + 2) div 5 + 1;
          m = (if mp < 10 then mp + 3 else mp - 9);
          y = yoe + era * 400 + (if m \<le> 2 then 1 else 0)
      in (y, m, d))"

definition pad_left :: "nat \<Rightarrow> string \<Rightarrow> string" where
  "pad_left n s = replicate (n - length s) CHR ''0'' @ s"

definition strftime_Ymd :: "int \<Rightarrow> string" where
  "strftime_Ymd day =
     (case civil_from_days day of
        (y, m, d) \<Rightarrow> pad_left 4 (dec_int y) @ pad_left 2 (dec_int m) @ pad_left 2 (dec_int d))"

definition get_recent_drug_events :: "'w client \<Rightarrow> int \<Rightarrow> 'w \<Rightarrow> (exn + json) \<times> 'w" where
  "get_recent_drug_events client today w =
     (let end_date = today;
          start_date = end_date - 30;
          date_range = strftime_Ymd start_date @ ''_to_'' @ strftime_Ymd end_date;
          params = [(''search'', JStr (''receivedate:['' @ str_replace ''_to_'' '' TO '' date_range @ '']'')),
                    (''limit'', JInt 20)]
      in client FDA_BASE_URL params w)"

definition popular_drugs :: "string list" where
  "popular_drugs = [''aspirin'', ''ibuprofen'', ''acetaminophen'', ''metformin'', ''lisinopril'']"

text \<open>
  Lines 459 and 460, inside the \<^verbatim>\<open>try\<close>: \<^verbatim>\<open>all_labels.extend\<close> takes the elements
  of any iterable and raises, leaving the list as it was, on a value that has none.
\<close>

definition extend_results :: "json list \<Rightarrow> json \<Rightarrow> exn + json list" where
  "extend_results all_labels data =
     bind (py_get data ''results'' JNull) (\<lambda>results.
       if truthy results then bind (py_iter results) (\<lambda>xs. Inr (all_labels @ xs))
       else Inr all_labels)"

definition popular_params :: "string \<Rightarrow> params" where
  "popular_params drug = [(''search'', JStr (label_search drug)), (''limit'', JInt 1)]"

text \<open>The loop of \<^verbatim>\<open>_get_popular_drug_labels\<close> over the names it is given.\<close>

fun popular_loop :: "'w client \<Rightarrow> string list \<Rightarrow> json list \<Rightarrow> 'w \<times> log \<Rightarrow> json list \<times> 'w \<times> log" where
  "popular_loop client [] all_labels st = (all_labels, st)"
| "popular_loop client (drug # drugs) all_labels st =
     (case client FDA_DRUG_LABEL_URL (popular_params drug) (fst st) of
        (response, w') \<Rightarrow>
          (case bind response (extend_results all_labels) of
             Inr all_labels' \<Rightarrow> popular_loop client drugs all_labels' (w', snd st)
           | Inl e \<Rightarrow>
               popular_loop client drugs all_labels
                 (w', snd st @ [(''WARNING'', ''Error fetching data for '' @ drug @ '': '' @ exn_str e)])))"

definition get_popular_drug_labels :: "'w client \<Rightarrow> 'w \<times> log \<Rightarrow> json \<times> 'w \<times> log" where
  "get_popular_drug_labels client st =
     (case popular_loop client (take 3 popular_drugs) [] st of
        (all_labels, st') \<Rightarrow> (JObj [(''results'', JArr all_labels)], st'))"

definition get_recent_recalls :: "'w client \<Rightarrow> 'w \<Rightarrow> (exn + json) \<times> 'w" where
  "get_recent_recalls client w =
     client FDA_ENFORCEMENT_URL
       [(''search'', JStr ''product_type:Drugs''),
        (''limit'', JInt 20),
        (''sort'', JStr ''recall_initiation_date:desc'')] w"

text \<open>
  Lines 182 to 190 of \<^verbatim>\<open>handle_read_resource\<close>: the three addresses, and
  \<^verbatim>\<open>ValueError\<close> for any other.
\<close>

definition read_resource_body ::
  "'w client \<Rightarrow> int \<Rightarrow> string \<Rightarrow> 'w \<times> log \<Rightarrow> (exn + json) \<times> 'w \<times> log" where
  "read_resource_body client today uri st =
     (if uri = ''fda://drug-events/recent''
      then (case get_recent_drug_events client today (fst st) of (r, w') \<Rightarrow> (r, w', snd st))
      else if uri = ''fda://drug-labels/popular''
      then (case get_popular_drug_labels client st of (data, st') \<Rightarrow> (Inr data, st'))
      else if uri = ''fda://recalls/recent''
      then (case get_recent_recalls client (fst st) of (r, w') \<Rightarrow> (r, w', snd st))
      else (Inl (ValueError (''Unknown resource URI: '' @ uri)), st))"

text \<open>
  \<^verbatim>\<open>handle_read_resource\<close>, lines 179 to 209. The class \<^verbatim>\<open>ReadResourceResult\<close>
  is declared in the package \<^verbatim>\<open>mcp\<close>, not in the repository, and its constructor
  validates the contents it is given: the handler takes it as the parameter
  \<open>make_result\<close>, which gives the object built or the exception raised. The result
  of line 192 is built inside the \<^verbatim>\<open>try\<close>, so what its constructor raises is
  caught like a failure of the fetch; the result of line 202 is built in the
  \<^verbatim>\<open>except\<close> clause, after the line of the log, and what its constructor raises
  leaves the handler.
\<close>

definition handle_read_resource ::
  "(TextContent list \<Rightarrow> exn + 'r) \<Rightarrow> 'w client \<Rightarrow> int \<Rightarrow> string \<Rightarrow> 'w \<times> log \<Rightarrow>
   (exn + 'r) \<times> 'w \<times> log" where
  "handle_read_resource make_result client today uri st =
     (case read_resource_body client today uri st of
        (fetched, w', lg) \<Rightarrow>
          (case bind fetched (\<lambda>data. make_result [text_content (json_dumps data)]) of
             Inr result \<Rightarrow> (Inr result, w', lg)
           | Inl e \<Rightarrow>
               (make_result [text_content (''Error reading resource: '' @ exn_str e)],
                w',
                lg @ [(''ERROR'', ''Error reading resource '' @ uri @ '': '' @ exn_str e)])))"

section \<open>The prompt \<^verbatim>\<open>drug_comparison\<close>\<close>

text \<open>Line 516: \<^verbatim>\<open>[drug.strip() for drug in drug_list.split(",")]\<close>.\<close>

definition comparison_drugs :: "string \<Rightarrow> string list" where
  "comparison_drugs drug_list = map str_strip (str_split '','' drug_list)"

definition comparison_text :: "string list \<Rightarrow> string" where
  "comparison_text drugs =
     str_join [CHR 0x0A]
       [[],
        ''Please compare the safety profiles of the following drugs: '' @ str_join '', '' drugs,
        [],
        ''For each drug, use the FDA MCP server tools to gather:'',
        ''1. Adverse event data'',
        ''2. Drug labeling information'',
        ''3. Recall history'',
        [],
        ''Create a comparative analysis including:'',
        ''- Side effect profiles comparison'',
        ''- Relative safety rankings'',
        ''- Different risk factors for each drug'',
        ''- Contraindications and warnings comparison'',
        ''- Historical recall patterns'',
        [],
        ''Present the comparison in a clear, structured format that helps understand the relative risks and benefits of each medication.'',
        []]"

definition get_drug_comparison_prompt :: "(string \<times> json) list \<Rightarrow> exn + GetPromptResult" where
  "get_drug_comparison_prompt arguments =
     bind (args_item arguments ''drug_list'') (\<lambda>drug_list.
       case drug_list of
         JStr s \<Rightarrow>
           (let drugs = comparison_drugs s
            in Inr \<lparr>description = ''Comparative analysis prompt for: '' @ str_join '', '' drugs,
                    messages = [\<lparr>role = ''user'',
                                 message_content = text_content (str_strip (comparison_text drugs))\<rparr>]\<rparr>)
       | _ \<Rightarrow> Inl (AttributeError (type_name drug_list) ''split''))"

section \<open>Upstreams to run the model on\<close>

text \<open>An upstream that is down: every request raises.\<close>

definition failing_client :: "nat client" where
  "failing_client url ps w = (Inl (UpstreamError ''connection refused''), Suc w)"

text \<open>
  An upstream that holds the records \<open>avail\<close> for every search and answers a request
  with the first \<^verbatim>\<open>limit\<close> of them, and with their number as the total.
\<close>

definition param_limit :: "params \<Rightarrow> nat" where
  "param_limit ps = (case map_of ps ''limit'' of Some (JInt n) \<Rightarrow> nat n | _ \<Rightarrow> 0)"

definition serving :: "json list \<Rightarrow> nat client" where
  "serving avail url ps w =
     (Inr (JObj [(''meta'', JObj [(''results'', JObj [(''total'', JInt (int (length avail)))])]),
                 (''results'', JArr (take (param_limit ps) avail))]),
      Suc w)"

text \<open>
  An observer around a client: it keeps, beside the world, the requests that were
  issued, oldest first.
\<close>

definition recording :: "'w client \<Rightarrow> ('w \<times> (string \<times> params) list) client" where
  "recording client url ps wl =
     (case client url ps (fst wl) of (r, w') \<Rightarrow> (r, (w', snd wl @ [(url, ps)])))"

text \<open>The dict that lines 350 to 361 build, from the entries of a label and of its \<^verbatim>\<open>openfda\<close> part.\<close>

definition label_fields :: "(string \<times> json) list \<Rightarrow> (string \<times> json) list \<Rightarrow> (string \<times> json) list" where
  "label_fields kvs openfda =
     [(''brand_names'', case map_of openfda ''brand_name'' of Some v \<Rightarrow> v | None \<Rightarrow> JArr []),
      (''generic_names'', case map_of openfda ''generic_name'' of Some v \<Rightarrow> v | None \<Rightarrow> JArr []),
      (''manufacturer'', case map_of openfda ''manufacturer_name'' of Some v \<Rightarrow> v | None \<Rightarrow> JArr []),
      (''substance_names'', case map_of openfda ''substance_name'' of Some v \<Rightarrow> v | None \<Rightarrow> JArr []),
      (''product_type'', case map_of openfda ''product_type'' of Some v \<Rightarrow> v | None \<Rightarrow> JArr []),
      (''route'', case map_of openfda ''route'' of Some v \<Rightarrow> v | None \<Rightarrow> JArr []),
      (''indications_and_usage'',
         case map_of kvs ''indications_and_usage'' of Some v \<Rightarrow> v | None \<Rightarrow> JArr [JStr ''Not available'']),
      (''warnings'', case map_of kvs ''warnings'' of Some v \<Rightarrow> v | None \<Rightarrow> JArr [JStr ''Not available'']),
      (''adverse_reactions'',
         case map_of kvs ''adverse_reactions'' of Some v \<Rightarrow> v | None \<Rightarrow> JArr [JStr ''Not available'']),
      (''dosage_and_administration'',
         case map_of kvs ''dosage_and_administration'' of Some v \<Rightarrow> v | None \<Rightarrow> JArr [JStr ''Not available''])]"

text \<open>An upstream that ignores the limit: it answers every request with all of \<open>rs\<close>.\<close>

definition returning :: "json list \<Rightarrow> nat client" where
  "returning rs url ps w = (Inr (JObj [(''results'', JArr rs)]), Suc w)"

text \<open>The dict that lines 400 to 409 build from the entries of a recall.\<close>

definition recall_fields :: "(string \<times> json) list \<Rightarrow> (string \<times> json) list" where
  "recall_fields kvs =
     [(''recall_number'', case map_of kvs ''recall_number'' of Some v \<Rightarrow> v | None \<Rightarrow> JStr ''Unknown''),
      (''product_description'',
         case map_of kvs ''product_description'' of Some v \<Rightarrow> v | None \<Rightarrow> JStr ''Unknown''),
      (''reason_for_recall'',
         case map_of kvs ''reason_for_recall'' of Some v \<Rightarrow> v | None \<Rightarrow> JStr ''Unknown''),
      (''classification'', case map_of kvs ''classification'' of Some v \<Rightarrow> v | None \<Rightarrow> JStr ''Unknown''),
      (''status'', case map_of kvs ''status'' of Some v \<Rightarrow> v | None \<Rightarrow> JStr ''Unknown''),
      (''recall_initiation_date'',
         case map_of kvs ''recall_initiation_date'' of Some v \<Rightarrow> v | None \<Rightarrow> JStr ''Unknown''),
      (''firm_name'', case map_of kvs ''recalling_firm'' of Some v \<Rightarrow> v | None \<Rightarrow> JStr ''Unknown''),
      (''distribution_pattern'',
         case map_of kvs ''distribution_pattern'' of Some v \<Rightarrow> v | None \<Rightarrow> JStr ''Unknown'')]"

text \<open>
  The dict that lines 298 to 315 build, from the entries of an event and of its
  \<^verbatim>\<open>patient\<close> part and the two lists the comprehensions give; and the elements
  that the comprehensions give for a reaction object and for a drug object.
\<close>

definition event_fields ::
  "(string \<times> json) list \<Rightarrow> (string \<times> json) list \<Rightarrow> json list \<Rightarrow> json list \<Rightarrow> (string \<times> json) list" where
  "event_fields kvs patient reactions drugs =
     [(''report_id'', case map_of kvs ''safetyreportid'' of Some v \<Rightarrow> v | None \<Rightarrow> JStr ''Unknown''),
      (''receive_date'', case map_of kvs ''receivedate'' of Some v \<Rightarrow> v | None \<Rightarrow> JStr ''Unknown''),
      (''serious'', case map_of kvs ''serious'' of Some v \<Rightarrow> v | None \<Rightarrow> JStr ''Unknown''),
      (''patient_age'', case map_of patient ''patientonsetage'' of Some v \<Rightarrow> v | None \<Rightarrow> JStr ''Unknown''),
      (''patient_sex'', case map_of patient ''patientsex'' of Some v \<Rightarrow> v | None \<Rightarrow> JStr ''Unknown''),
      (''reactions'', JArr reactions),
      (''drugs'', JArr drugs)]"

definition reaction_name :: "(string \<times> json) list \<Rightarrow> json" where
  "reaction_name reaction =
     (case map_of reaction ''reactionmeddrapt'' of Some v \<Rightarrow> v | None \<Rightarrow> JStr ''Unknown'')"

definition drug_entry :: "(string \<times> json) list \<Rightarrow> json" where
  "drug_entry drug =
     JObj [(''name'', case map_of drug ''medicinalproduct'' of Some v \<Rightarrow> v | None \<Rightarrow> JStr ''Unknown''),
           (''indication'', case map_of drug ''drugindication'' of Some v \<Rightarrow> v | None \<Rightarrow> JStr ''Unknown'')]"

text \<open>
  Two constructors for the result of a resource read. The first accepts every list
  of \<^verbatim>\<open>TextContent\<close> and keeps it. The second is the one of the package
  \<^verbatim>\<open>mcp\<close>, whose \<^verbatim>\<open>contents\<close> are resource contents (each with the address of
  its resource): a \<^verbatim>\<open>TextContent\<close> is none, and the constructor raises
  \<^verbatim>\<open>ValidationError\<close>, with some message, on a list that holds one.
\<close>

definition accepting :: "TextContent list \<Rightarrow> exn + TextContent list" where
  "accepting contents = Inr contents"

definition rejecting :: "string \<Rightarrow> TextContent list \<Rightarrow> exn + TextContent list" where
  "rejecting msg contents = (if contents = [] then Inr [] else Inl (ValidationError msg))"

text \<open>
  What one response of the loop of \<^verbatim>\<open>_get_popular_drug_labels\<close> adds to
  \<^verbatim>\<open>all_labels\<close>, and the lines it makes the loop log: a response that raised,
  or whose handling raises, adds nothing and logs one warning.
\<close>

definition contribution :: "exn + json \<Rightarrow> json list" where
  "contribution response =
     (case bind response (extend_results []) of Inr xs \<Rightarrow> xs | Inl e \<Rightarrow> [])"

definition warning :: "string \<Rightarrow> exn + json \<Rightarrow> log" where
  "warning drug response =
     (case bind response (extend_results []) of
        Inr xs \<Rightarrow> []
      | Inl e \<Rightarrow> [(''WARNING'', ''Error fetching data for '' @ drug @ '': '' @ exn_str e)])"

text \<open>
  An upstream that fails on every request for ibuprofen and answers any other
  request with one record, which holds the search string of the request.
\<close>

definition flaky :: "nat client" where
  "flaky url ps w =
     (if ps = popular_params ''ibuprofen'' then (Inl (UpstreamError ''timeout''), Suc w)
      else (Inr (JObj [(''results'',
                        JArr [JObj [(''q'', case map_of ps ''search'' of Some s \<Rightarrow> s | None \<Rightarrow> JNull)]])]),
            Suc w))"

section \<open>Properties\<close>

subsection \<open>Strings\<close>

lemma contains_iff_sublist: "contains sub s = sublist sub s"
  by (induction s) (auto simp: sublist_Cons_right)

lemma contains_append: "contains sub (pre @ sub @ suf)"
  by (simp add: contains_iff_sublist sublist_def) blast

lemma str_split_not_Nil: "str_split sep s \<noteq> []"
  by (induction sep s rule: str_split.induct) (auto split: list.splits)

lemma str_join_Cons_head: "str_join sep ((c # w) # ws) = c # str_join sep (w # ws)"
  by (cases ws) auto

lemma str_join_Nil_head: "xs \<noteq> [] \<Longrightarrow> str_join sep ([] # xs) = sep @ str_join sep xs"
  by (cases xs) auto

lemma str_replace_join_split:
  "old \<noteq> [] \<Longrightarrow> str_replace old new s = str_join new (str_split old s)"
proof (induction old new s rule: str_replace.induct)
  case (1 old new)
  then show ?case by simp
next
  case (2 old new c cs)
  show ?case
  proof (cases "prefix old (c # cs)")
    case True
    with 2 show ?thesis
      by (simp add: str_join_Nil_head str_split_not_Nil)
  next
    case False
    obtain w ws where ws: "str_split old cs = w # ws"
      using str_split_not_Nil [of old cs] by (cases "str_split old cs") auto
    with 2 False show ?thesis
      by (simp add: str_join_Cons_head)
  qed
qed

subsection \<open>Dispatch of a tool call\<close>

text \<open>
  C6. A tool name other than the three known ones gives a result flagged as an
  error whose only text is \<^verbatim>\<open>Error: Unknown tool: <name>\<close>, which contains
  \<^verbatim>\<open>Unknown tool\<close>; and whatever exception the dispatched body raises, for any
  name, the handler returns a result flagged as an error that carries the
  message of the exception: the handler returns a result on every input.
\<close>

theorem unknown_tool_is_error:
  "(name \<notin> {''search_drug_events'', ''get_drug_label_info'', ''search_drug_recalls''} \<longrightarrow>
      fst (handle_call_tool client name arguments st) =
        \<lparr>content = [text_content (''Error: Unknown tool: '' @ name)], isError = True\<rparr> \<and>
      contains ''Unknown tool'' (''Error: Unknown tool: '' @ name)) \<and>
   (\<forall>e w'. call_tool_body client name arguments (fst st) = (Inl e, w') \<longrightarrow>
      fst (handle_call_tool client name arguments st) =
        \<lparr>content = [text_content (''Error: '' @ exn_str e)], isError = True\<rparr>)"
proof -
  have "contains ''Unknown tool'' (''Error: '' @ ''Unknown tool'' @ '': '' @ name)"
    by (rule contains_append)
  then have c: "contains ''Unknown tool'' (''Error: Unknown tool: '' @ name)" by simp
  show ?thesis
    using c by (auto simp: handle_call_tool_def call_tool_body_def exn_str_def)
qed

theorem unknown_tool_is_error_witness:
  "''foo'' \<notin> {''search_drug_events'', ''get_drug_label_info'', ''search_drug_recalls''} \<and>
   fst (handle_call_tool failing_client ''foo'' [] (0, [])) =
     \<lparr>content = [text_content ''Error: Unknown tool: foo''], isError = True\<rparr> \<and>
   contains ''Unknown tool'' ''Error: Unknown tool: foo'' \<and>
   call_tool_body failing_client ''search_drug_recalls'' [(''drug_name'', JStr ''aspirin'')] (fst (0, [])) =
     (Inl (UpstreamError ''connection refused''), 1) \<and>
   fst (handle_call_tool failing_client ''search_drug_recalls'' [(''drug_name'', JStr ''aspirin'')] (0, [])) =
     \<lparr>content = [text_content ''Error: connection refused''], isError = True\<rparr>"
proof -
  have body: "call_tool_body failing_client ''search_drug_recalls''
      [(''drug_name'', JStr ''aspirin'')] (fst (0, [])) = (Inl (UpstreamError ''connection refused''), 1)"
    by (simp add: call_tool_body_def search_drug_recalls_def recall_params_def args_item_def
        args_get_def bind_def py_min_def truthy_def failing_client_def Let_def)
  from unknown_tool_is_error [of "''foo''" failing_client "[]" "(0, [])"]
    unknown_tool_is_error [of "''search_drug_recalls''" failing_client
      "[(''drug_name'', JStr ''aspirin'')]" "(0, [])"] body
  show ?thesis
    by (simp add: exn_str_def)
qed

subsection \<open>The date range of \<^verbatim>\<open>search_drug_events\<close>\<close>

text \<open>
  C4. When the arguments carry a date range that is not empty (and a drug name,
  and a limit that \<^verbatim>\<open>min\<close> accepts), the request goes to the adverse event
  endpoint with the search string
  \<^verbatim>\<open>patient.drug.medicinalproduct:"<drug>" AND receivedate:[<parts joined by " TO ">]\<close>,
  where the parts are the date range split at the separator \<^verbatim>\<open>_to_\<close>; for
  \<^verbatim>\<open>20240101_to_20240131\<close> the search string contains
  \<^verbatim>\<open>receivedate:[20240101 TO 20240131]\<close>.
\<close>

theorem date_range_clause:
  assumes "map_of arguments ''drug_name'' = Some drug_name"
    and "map_of arguments ''date_range'' = Some (JStr s)"
    and "s \<noteq> []"
    and "py_min (args_get arguments ''limit'' (JInt 10)) 100 = Inr capped"
  shows "\<exists>search.
     search = ''patient.drug.medicinalproduct:'' @ [CHR 0x22] @ py_str drug_name @ [CHR 0x22] @
              '' AND '' @ ''receivedate:['' @ str_join '' TO '' (str_split ''_to_'' s) @ '']'' \<and>
     search_drug_events client arguments w =
       (case client FDA_BASE_URL [(''search'', JStr search), (''limit'', capped)] w of
          (Inl e, w') \<Rightarrow> (Inl e, w')
        | (Inr data, w') \<Rightarrow>
            (bind (events_result (args_get arguments ''limit'' (JInt 10)) data)
               (\<lambda>result. Inr (tool_result result)), w')) \<and>
     (s = ''20240101_to_20240131'' \<longrightarrow> contains ''receivedate:[20240101 TO 20240131]'' search)"
proof -
  let ?search = "''patient.drug.medicinalproduct:'' @ [CHR 0x22] @ py_str drug_name @ [CHR 0x22] @
              '' AND '' @ ''receivedate:['' @ str_join '' TO '' (str_split ''_to_'' s) @ '']''"
  have rep: "str_replace ''_to_'' '' TO '' s = str_join '' TO '' (str_split ''_to_'' s)"
    by (rule str_replace_join_split) simp
  have params: "events_params arguments =
      Inr (args_get arguments ''limit'' (JInt 10), [(''search'', JStr ?search), (''limit'', capped)])"
    using assms by (simp add: events_params_def args_item_def args_get_def bind_def truthy_def rep Let_def)
  have run: "search_drug_events client arguments w =
       (case client FDA_BASE_URL [(''search'', JStr ?search), (''limit'', capped)] w of
          (Inl e, w') \<Rightarrow> (Inl e, w')
        | (Inr data, w') \<Rightarrow>
            (bind (events_result (args_get arguments ''limit'' (JInt 10)) data)
               (\<lambda>result. Inr (tool_result result)), w'))"
    unfolding search_drug_events_def params by simp
  have ex: "s = ''20240101_to_20240131'' \<longrightarrow> contains ''receivedate:[20240101 TO 20240131]'' ?search"
  proof
    assume s: "s = ''20240101_to_20240131''"
    have spl: "str_join '' TO '' (str_split ''_to_'' ''20240101_to_20240131'') = ''20240101 TO 20240131''"
      by simp
    have "contains ''receivedate:[20240101 TO 20240131]''
            ((''patient.drug.medicinalproduct:'' @ [CHR 0x22] @ py_str drug_name @ [CHR 0x22] @ '' AND '') @
             ''receivedate:[20240101 TO 20240131]'' @ [])"
      by (rule contains_append)
    then show "contains ''receivedate:[20240101 TO 20240131]'' ?search"
      unfolding s spl by simp
  qed
  show ?thesis
    by (intro exI conjI) (rule refl, rule run, rule ex)
qed

theorem date_range_clause_witness:
  "\<exists>search.
     search = ''patient.drug.medicinalproduct:'' @ [CHR 0x22] @ ''aspirin'' @ [CHR 0x22] @
              '' AND '' @ ''receivedate:['' @ ''20240101 TO 20240131'' @ '']'' \<and>
     search_drug_events (serving [])
         [(''drug_name'', JStr ''aspirin''), (''date_range'', JStr ''20240101_to_20240131'')] 0 =
       (case serving [] FDA_BASE_URL [(''search'', JStr search), (''limit'', JInt 10)] 0 of
          (Inl e, w') \<Rightarrow> (Inl e, w')
        | (Inr data, w') \<Rightarrow>
            (bind (events_result (JInt 10) data) (\<lambda>result. Inr (tool_result result)), w')) \<and>
     (''20240101_to_20240131'' = ''20240101_to_20240131'' \<longrightarrow>
        contains ''receivedate:[20240101 TO 20240131]'' search)"
proof -
  let ?args = "[(''drug_name'', JStr ''aspirin''), (''date_range'', JStr ''20240101_to_20240131'')]"
  have lim: "args_get ?args ''limit'' (JInt 10) = JInt 10"
    by (simp add: args_get_def)
  have cap: "py_min (args_get ?args ''limit'' (JInt 10)) 100 = Inr (JInt 10)"
    by (simp add: py_min_def args_get_def)
  have str: "py_str (JStr ''aspirin'') = ''aspirin''"
    by (simp add: py_str_def)
  have spl: "str_join '' TO '' (str_split ''_to_'' ''20240101_to_20240131'') = ''20240101 TO 20240131''"
    by simp
  have a1: "map_of ?args ''drug_name'' = Some (JStr ''aspirin'')" by simp
  have a2: "map_of ?args ''date_range'' = Some (JStr ''20240101_to_20240131'')" by simp
  have a3: "''20240101_to_20240131'' \<noteq> []" by simp
  show ?thesis
    using date_range_clause [OF a1 a2 a3 cap, of "serving []" 0]
    unfolding lim str spl .
qed

subsection \<open>The drug names of the comparison prompt\<close>

lemma str_split_no_sep: "c \<notin> set seg \<Longrightarrow> str_split [c] seg = [seg]"
  by (induction seg) auto

lemma str_split_append_sep:
  "c \<notin> set seg \<Longrightarrow> str_split [c] (seg @ c # rest) = seg # str_split [c] rest"
  by (induction seg) auto

lemma str_split_join:
  "segs \<noteq> [] \<Longrightarrow> \<forall>seg\<in>set segs. c \<notin> set seg \<Longrightarrow> str_split [c] (str_join [c] segs) = segs"
proof (induction segs)
  case Nil
  then show ?case by simp
next
  case (Cons seg segs)
  show ?case
  proof (cases segs)
    case Nil
    with Cons.prems show ?thesis by (simp add: str_split_no_sep)
  next
    case (Cons seg' segs')
    with Cons.prems Cons.IH show ?thesis
      by (simp add: str_split_append_sep)
  qed
qed

lemma str_join_split: "str_join [c] (str_split [c] s) = s"
proof (induction s)
  case Nil
  then show ?case by simp
next
  case (Cons x xs)
  obtain w ws where ws: "str_split [c] xs = w # ws"
    using str_split_not_Nil [of "[c]" xs] by (cases "str_split [c] xs") auto
  with Cons show ?case
    by (auto simp: str_join_Cons_head str_join_Nil_head)
qed

lemma str_split_segments: "seg \<in> set (str_split [c] s) \<Longrightarrow> c \<notin> set seg"
proof (induction s arbitrary: seg)
  case Nil
  then show ?case by simp
next
  case (Cons x xs)
  obtain w ws where ws: "str_split [c] xs = w # ws"
    using str_split_not_Nil [of "[c]" xs] by (cases "str_split [c] xs") auto
  with Cons show ?case
    by (auto split: if_splits)
qed

lemma length_str_split: "length (str_split [c] s) = Suc (count_list s c)"
proof (induction s)
  case Nil
  then show ?case by simp
next
  case (Cons x xs)
  obtain w ws where ws: "str_split [c] xs = w # ws"
    using str_split_not_Nil [of "[c]" xs] by (cases "str_split [c] xs") auto
  with Cons show ?case
    by auto
qed

lemma last_dropWhile: "dropWhile P xs \<noteq> [] \<Longrightarrow> last (dropWhile P xs) = last xs"
  by (induction xs) (auto split: if_splits)

lemma str_strip_decompose:
  "\<exists>l r. s = l @ str_strip s @ r \<and> (\<forall>ch\<in>set l. is_space ch) \<and> (\<forall>ch\<in>set r. is_space ch)"
proof -
  let ?m = "dropWhile is_space s"
  have 1: "s = takeWhile is_space s @ ?m" by simp
  have "rev (dropWhile is_space (rev ?m)) @ rev (takeWhile is_space (rev ?m)) =
        rev (takeWhile is_space (rev ?m) @ dropWhile is_space (rev ?m))"
    by (simp only: rev_append)
  also have "\<dots> = rev (rev ?m)"
    by (simp only: takeWhile_dropWhile_id)
  also have "\<dots> = ?m"
    by simp
  finally have 2: "?m = str_strip s @ rev (takeWhile is_space (rev ?m))"
    by (simp add: str_strip_def)
  have 3: "\<forall>ch\<in>set (takeWhile is_space s). is_space ch"
    by (auto dest: set_takeWhileD)
  have 4: "\<forall>ch\<in>set (rev (takeWhile is_space (rev ?m))). is_space ch"
    by (auto dest: set_takeWhileD)
  from 1 2 have "s = takeWhile is_space s @ str_strip s @ rev (takeWhile is_space (rev ?m))"
    by simp
  with 3 4 show ?thesis by blast
qed

lemma str_strip_ends:
  assumes "str_strip s \<noteq> []"
  shows "\<not> is_space (hd (str_strip s)) \<and> \<not> is_space (last (str_strip s))"
proof -
  let ?m = "dropWhile is_space s"
  let ?d = "dropWhile is_space (rev ?m)"
  from assms have d: "?d \<noteq> []" by (simp add: str_strip_def)
  have m: "?m \<noteq> []"
  proof
    assume a: "?m = []"
    have "?d = dropWhile is_space (rev [])" by (simp only: a)
    also have "\<dots> = []" by simp
    finally show False using d by blast
  qed
  have "\<not> is_space (hd ?d)" using d by (rule hd_dropWhile)
  then have l: "\<not> is_space (last (str_strip s))"
    using d by (simp add: str_strip_def last_rev)
  have "\<not> is_space (hd ?m)" using m by (rule hd_dropWhile)
  moreover have "last ?d = last (rev ?m)"
    using d by (rule last_dropWhile)
  ultimately have "\<not> is_space (last ?d)" using m by (simp add: last_rev)
  then have "\<not> is_space (hd (str_strip s))"
    using d by (simp add: str_strip_def hd_rev)
  with l show ?thesis by simp
qed

text \<open>
  C5. For \<^verbatim>\<open>Aspirin, ibuprofen ,Tylenol\<close> the names are \<^verbatim>\<open>Aspirin\<close>,
  \<^verbatim>\<open>ibuprofen\<close>, \<^verbatim>\<open>Tylenol\<close>. Every input is the comma-joined list of its
  comma-free segments, and the names are these segments, in their order, each
  stripped: there is one name per segment (one more than there are commas), an
  empty segment giving the empty name. A stripped segment is the segment without a
  run of white space at each end, and it neither starts nor ends with white space.
\<close>

theorem comparison_drugs_split_strip:
  "comparison_drugs ''Aspirin, ibuprofen ,Tylenol'' = [''Aspirin'', ''ibuprofen'', ''Tylenol''] \<and>
   (\<exists>segs. drug_list = str_join '','' segs \<and> (\<forall>seg\<in>set segs. CHR '','' \<notin> set seg) \<and>
      comparison_drugs drug_list = map str_strip segs) \<and>
   (\<forall>segs. segs \<noteq> [] \<and> (\<forall>seg\<in>set segs. CHR '','' \<notin> set seg) \<longrightarrow>
      comparison_drugs (str_join '','' segs) = map str_strip segs) \<and>
   length (comparison_drugs drug_list) = Suc (count_list drug_list CHR '','') \<and>
   (\<forall>seg. \<exists>l r. seg = l @ str_strip seg @ r \<and>
      (\<forall>ch\<in>set l. is_space ch) \<and> (\<forall>ch\<in>set r. is_space ch) \<and>
      (str_strip seg \<noteq> [] \<longrightarrow> \<not> is_space (hd (str_strip seg)) \<and> \<not> is_space (last (str_strip seg))))"
proof (intro conjI)
  show "comparison_drugs ''Aspirin, ibuprofen ,Tylenol'' = [''Aspirin'', ''ibuprofen'', ''Tylenol'']"
    by (simp add: comparison_drugs_def str_strip_def is_space_def)
  show "\<exists>segs. drug_list = str_join '','' segs \<and> (\<forall>seg\<in>set segs. CHR '','' \<notin> set seg) \<and>
      comparison_drugs drug_list = map str_strip segs"
  proof (intro exI conjI)
    show "drug_list = str_join '','' (str_split '','' drug_list)"
      by (simp add: str_join_split)
    show "\<forall>seg\<in>set (str_split '','' drug_list). CHR '','' \<notin> set seg"
      using str_split_segments by blast
    show "comparison_drugs drug_list = map str_strip (str_split '','' drug_list)"
      by (simp add: comparison_drugs_def)
  qed
  show "\<forall>segs. segs \<noteq> [] \<and> (\<forall>seg\<in>set segs. CHR '','' \<notin> set seg) \<longrightarrow>
      comparison_drugs (str_join '','' segs) = map str_strip segs"
    by (simp add: comparison_drugs_def str_split_join)
  show "length (comparison_drugs drug_list) = Suc (count_list drug_list CHR '','')"
    by (simp add: comparison_drugs_def length_str_split)
  show "\<forall>seg. \<exists>l r. seg = l @ str_strip seg @ r \<and>
      (\<forall>ch\<in>set l. is_space ch) \<and> (\<forall>ch\<in>set r. is_space ch) \<and>
      (str_strip seg \<noteq> [] \<longrightarrow> \<not> is_space (hd (str_strip seg)) \<and> \<not> is_space (last (str_strip seg)))"
    using str_strip_decompose str_strip_ends by blast
qed

theorem comparison_drugs_split_strip_witness:
  "[''a'', [], '' b c ''] \<noteq> [] \<and>
   CHR '','' \<notin> set ''a'' \<and> CHR '','' \<notin> set [] \<and> CHR '','' \<notin> set '' b c '' \<and>
   comparison_drugs ''a,, b c '' = [''a'', [], ''b c''] \<and>
   str_strip '' b c '' \<noteq> [] \<and> \<not> is_space (hd (str_strip '' b c ''))"
proof -
  have segs: "[''a'', [], '' b c ''] \<noteq> [] \<and> (\<forall>seg\<in>set [''a'', [], '' b c '']. CHR '','' \<notin> set seg)"
    by simp
  have strip: "map str_strip [''a'', [], '' b c ''] = [''a'', [], ''b c'']"
    by (simp add: str_strip_def is_space_def)
  have join: "str_join '','' [''a'', [], '' b c ''] = ''a,, b c ''"
    by simp
  have ne: "str_strip '' b c '' \<noteq> []"
    by (simp add: str_strip_def is_space_def)
  from comparison_drugs_split_strip [of "[]"]
  have "(\<forall>segs. segs \<noteq> [] \<and> (\<forall>seg\<in>set segs. CHR '','' \<notin> set seg) \<longrightarrow>
          comparison_drugs (str_join '','' segs) = map str_strip segs) \<and>
        (\<forall>seg. \<exists>l r. seg = l @ str_strip seg @ r \<and>
          (\<forall>ch\<in>set l. is_space ch) \<and> (\<forall>ch\<in>set r. is_space ch) \<and>
          (str_strip seg \<noteq> [] \<longrightarrow> \<not> is_space (hd (str_strip seg)) \<and> \<not> is_space (last (str_strip seg))))"
    by blast
  then have "comparison_drugs (str_join '','' [''a'', [], '' b c '']) = map str_strip [''a'', [], '' b c '']"
    and "\<not> is_space (hd (str_strip '' b c ''))"
    using segs ne by blast+
  then have "comparison_drugs ''a,, b c '' = [''a'', [], ''b c'']"
    and "\<not> is_space (hd (str_strip '' b c ''))"
    unfolding strip join by blast+
  moreover have "CHR '','' \<notin> set ''a'' \<and> CHR '','' \<notin> set [] \<and> CHR '','' \<notin> set '' b c ''"
    by simp
  ultimately show ?thesis
    using ne by simp
qed

subsection \<open>Exceptions and loops\<close>

lemma bind_Inr [simp]: "bind (Inr x) f = f x"
  by (simp add: bind_def)

lemma bind_Inl [simp]: "bind (Inl e) f = Inl e"
  by (simp add: bind_def)

lemma bind_eq_Inr_iff: "bind m f = Inr y \<longleftrightarrow> (\<exists>x. m = Inr x \<and> f x = Inr y)"
  by (cases m) auto

lemma py_get_JObj [simp]:
  "py_get (JObj kvs) k dflt = Inr (case map_of kvs k of Some v \<Rightarrow> v | None \<Rightarrow> dflt)"
  by (simp add: py_get_def)

lemma py_get_Inr_D: "py_get d k dflt = Inr v \<Longrightarrow> \<exists>kvs. d = JObj kvs"
  by (cases d) (auto simp: py_get_def)

lemma mapM_Inr_D: "mapM f xs = Inr ys \<Longrightarrow> list_all2 (\<lambda>x y. f x = Inr y) xs ys"
proof (induction xs arbitrary: ys)
  case Nil
  then show ?case by simp
next
  case (Cons x xs)
  from Cons.prems obtain y ys' where "f x = Inr y" "mapM f xs = Inr ys'" "ys = y # ys'"
    by (auto simp: bind_eq_Inr_iff)
  with Cons.IH show ?case by simp
qed

lemma mapM_total: "\<forall>x\<in>set xs. f x = Inr (g x) \<Longrightarrow> mapM f xs = Inr (map g xs)"
  by (induction xs) auto

lemma mapM_Inr_set: "mapM f xs = Inr ys \<Longrightarrow> y \<in> set ys \<Longrightarrow> \<exists>x\<in>set xs. f x = Inr y"
proof -
  assume "mapM f xs = Inr ys" and y: "y \<in> set ys"
  then have l: "list_all2 (\<lambda>x y. f x = Inr y) xs ys" by (simp add: mapM_Inr_D)
  from y obtain i where i: "i < length ys" "ys ! i = y" by (auto simp: in_set_conv_nth)
  from l i have "f (xs ! i) = Inr y" "i < length xs"
    by (auto dest: list_all2_nthD2 list_all2_lengthD)
  then show ?thesis by (metis nth_mem)
qed

lemma mapM_length: "mapM f xs = Inr ys \<Longrightarrow> length ys = length xs"
  by (drule mapM_Inr_D) (simp add: list_all2_lengthD)

subsection \<open>The projection of a label\<close>

lemma process_label_absent:
  "map_of kvs ''openfda'' = None \<Longrightarrow> process_label (JObj kvs) = Inr (JObj (label_fields kvs []))"
  unfolding process_label_def label_fields_def by simp

lemma process_label_present:
  "map_of kvs ''openfda'' = Some (JObj openfda) \<Longrightarrow>
   process_label (JObj kvs) = Inr (JObj (label_fields kvs openfda))"
  unfolding process_label_def label_fields_def by simp

lemma process_label_not_object:
  "map_of kvs ''openfda'' = Some v \<Longrightarrow> process_label (JObj kvs) = Inr p \<Longrightarrow> \<exists>openfda. v = JObj openfda"
  unfolding process_label_def by (cases v) (simp_all add: py_get_def)

lemma process_label_Inr_obj: "process_label label = Inr p \<Longrightarrow> \<exists>kvs. label = JObj kvs"
  unfolding process_label_def by (cases label) (simp_all add: py_get_def)

lemma label_fields_keys:
  "map fst (label_fields kvs openfda) =
       [''brand_names'', ''generic_names'', ''manufacturer'', ''substance_names'', ''product_type'',
        ''route'', ''indications_and_usage'', ''warnings'', ''adverse_reactions'',
        ''dosage_and_administration'']"
  unfolding label_fields_def by simp

lemma label_fields_lists:
  "\<forall>(out, src)\<in>set [(''brand_names'', ''brand_name''), (''generic_names'', ''generic_name''),
                       (''manufacturer'', ''manufacturer_name''), (''substance_names'', ''substance_name''),
                       (''product_type'', ''product_type''), (''route'', ''route'')].
        map_of (label_fields kvs openfda) out = Some (case map_of openfda src of None \<Rightarrow> JArr [] | Some v \<Rightarrow> v)"
  unfolding label_fields_def by simp

lemma label_fields_texts:
  "\<forall>k\<in>set [''indications_and_usage'', ''warnings'', ''adverse_reactions'', ''dosage_and_administration''].
        map_of (label_fields kvs openfda) k =
          Some (case map_of kvs k of None \<Rightarrow> JArr [JStr ''Not available''] | Some v \<Rightarrow> v)"
  unfolding label_fields_def by simp

lemma process_label_projection:
  assumes "process_label label = Inr projected"
  shows "\<exists>kvs openfda fields.
          process_label label = Inr projected \<and>
          label = JObj kvs \<and>
          (map_of kvs ''openfda'' = None \<and> openfda = [] \<or> map_of kvs ''openfda'' = Some (JObj openfda)) \<and>
          projected = JObj fields \<and>
          map fst fields =
            [''brand_names'', ''generic_names'', ''manufacturer'', ''substance_names'', ''product_type'',
             ''route'', ''indications_and_usage'', ''warnings'', ''adverse_reactions'',
             ''dosage_and_administration''] \<and>
          (\<forall>(out, src)\<in>set [(''brand_names'', ''brand_name''), (''generic_names'', ''generic_name''),
                            (''manufacturer'', ''manufacturer_name''), (''substance_names'', ''substance_name''),
                            (''product_type'', ''product_type''), (''route'', ''route'')].
             map_of fields out = Some (case map_of openfda src of None \<Rightarrow> JArr [] | Some v \<Rightarrow> v)) \<and>
          (\<forall>k\<in>set [''indications_and_usage'', ''warnings'', ''adverse_reactions'', ''dosage_and_administration''].
             map_of fields k =
               Some (case map_of kvs k of None \<Rightarrow> JArr [JStr ''Not available''] | Some v \<Rightarrow> v))"
proof -
  from assms obtain kvs where label: "label = JObj kvs"
    using process_label_Inr_obj by blast
  show ?thesis
  proof (cases "map_of kvs ''openfda''")
    case None
    with assms label have p: "projected = JObj (label_fields kvs [])"
      by (simp add: process_label_absent)
    show ?thesis
    proof (intro exI conjI)
      show "process_label label = Inr projected" by (rule assms)
      show "label = JObj kvs" by (rule label)
      show "projected = JObj (label_fields kvs [])" by (rule p)
      show "map_of kvs ''openfda'' = None \<and> [] = [] \<or> map_of kvs ''openfda'' = Some (JObj [])"
        using None by simp
    qed (rule label_fields_keys, rule label_fields_lists, rule label_fields_texts)
  next
    case (Some v)
    with assms label obtain openfda where v: "v = JObj openfda"
      using process_label_not_object by blast
    with Some assms label have p: "projected = JObj (label_fields kvs openfda)"
      by (simp add: process_label_present)
    show ?thesis
    proof (intro exI conjI)
      show "process_label label = Inr projected" by (rule assms)
      show "label = JObj kvs" by (rule label)
      show "projected = JObj (label_fields kvs openfda)" by (rule p)
      show "map_of kvs ''openfda'' = None \<and> openfda = [] \<or> map_of kvs ''openfda'' = Some (JObj openfda)"
        using Some v by simp
    qed (rule label_fields_keys, rule label_fields_lists, rule label_fields_texts)
  qed
qed

lemmas run_defs =
  args_item_def args_get_def py_min_def py_slice_to_def index_of_def slice_opt_def slice_to_def
  py_iter_def total_results_def truthy_def py_str_def serving_def param_limit_def Let_def

lemma get_drug_label_info_Inr:
  assumes "get_drug_label_info client arguments w = (Inr res, w')"
  shows "\<exists>limit params data results sliced labels total.
     label_params arguments = Inr (limit, params) \<and>
     client FDA_DRUG_LABEL_URL params w = (Inr data, w') \<and>
     py_get data ''results'' (JArr []) = Inr results \<and>
     py_slice_to results limit = Inr sliced \<and>
     mapM process_label sliced = Inr labels \<and>
     total_results data = Inr total \<and>
     res = tool_result (JObj [(''total_results'', total), (''labels'', JArr labels)])"
proof (cases "label_params arguments")
  case (Inl e)
  with assms show ?thesis by (simp add: get_drug_label_info_def)
next
  case (Inr lp)
  obtain limit params where lp: "lp = (limit, params)" by (cases lp)
  obtain r w'' where c: "client FDA_DRUG_LABEL_URL params w = (r, w'')"
    by (cases "client FDA_DRUG_LABEL_URL params w")
  show ?thesis
  proof (cases r)
    case (Inl e)
    with assms Inr lp c show ?thesis by (simp add: get_drug_label_info_def)
  next
    case data: (Inr data)
    with assms Inr lp c have w: "w'' = w'"
      and b: "bind (label_result limit data) (\<lambda>result. Inr (tool_result result)) = Inr res"
      by (simp_all add: get_drug_label_info_def)
    from b obtain result where lr: "label_result limit data = Inr result" and res: "res = tool_result result"
      by (auto simp: bind_eq_Inr_iff)
    from lr obtain results sliced labels total where
      "py_get data ''results'' (JArr []) = Inr results"
      "py_slice_to results limit = Inr sliced"
      "mapM process_label sliced = Inr labels"
      "total_results data = Inr total"
      "result = JObj [(''total_results'', total), (''labels'', JArr labels)]"
      unfolding label_result_def bind_eq_Inr_iff by auto
    with Inr lp c data w res show ?thesis by simp
  qed
qed

lemma list_all2_projection:
  assumes "list_all2 (\<lambda>x y. f x = Inr y) xs ys" and "\<And>x y. f x = Inr y \<Longrightarrow> R x y"
  shows "list_all2 R xs ys"
  using assms(1) by (rule list_all2_mono) (rule assms(2))

text \<open>
  C3. Whenever \<^verbatim>\<open>get_drug_label_info\<close> returns a result, its labels are, one for
  one and in order, the projections of the upstream records that the loop visits
  (the slice of the \<^verbatim>\<open>results\<close> of the response). Each projected label has the
  ten keys of the projection; each of \<^verbatim>\<open>brand_names\<close>, \<^verbatim>\<open>generic_names\<close>,
  \<^verbatim>\<open>manufacturer\<close>, \<^verbatim>\<open>substance_names\<close>, \<^verbatim>\<open>product_type\<close> and \<^verbatim>\<open>route\<close>
  is the \<^verbatim>\<open>openfda\<close> entry of its own upstream record, and the empty list when
  that entry is absent (also when \<^verbatim>\<open>openfda\<close> itself is absent); each of the four
  text sections is the entry of its own upstream record, and
  \<^verbatim>\<open>["Not available"]\<close> when that entry is absent.
\<close>

theorem label_defaults:
  assumes "get_drug_label_info client arguments w = (Inr res, w')"
  shows "\<exists>limit params data results sliced total labels.
     label_params arguments = Inr (limit, params) \<and>
     client FDA_DRUG_LABEL_URL params w = (Inr data, w') \<and>
     py_get data ''results'' (JArr []) = Inr results \<and>
     py_slice_to results limit = Inr sliced \<and>
     res = tool_result (JObj [(''total_results'', total), (''labels'', JArr labels)]) \<and>
     list_all2
       (\<lambda>label projected. \<exists>kvs openfda fields.
          process_label label = Inr projected \<and>
          label = JObj kvs \<and>
          (map_of kvs ''openfda'' = None \<and> openfda = [] \<or> map_of kvs ''openfda'' = Some (JObj openfda)) \<and>
          projected = JObj fields \<and>
          map fst fields =
            [''brand_names'', ''generic_names'', ''manufacturer'', ''substance_names'', ''product_type'',
             ''route'', ''indications_and_usage'', ''warnings'', ''adverse_reactions'',
             ''dosage_and_administration''] \<and>
          (\<forall>(out, src)\<in>set [(''brand_names'', ''brand_name''), (''generic_names'', ''generic_name''),
                            (''manufacturer'', ''manufacturer_name''), (''substance_names'', ''substance_name''),
                            (''product_type'', ''product_type''), (''route'', ''route'')].
             map_of fields out = Some (case map_of openfda src of None \<Rightarrow> JArr [] | Some v \<Rightarrow> v)) \<and>
          (\<forall>k\<in>set [''indications_and_usage'', ''warnings'', ''adverse_reactions'', ''dosage_and_administration''].
             map_of fields k =
               Some (case map_of kvs k of None \<Rightarrow> JArr [JStr ''Not available''] | Some v \<Rightarrow> v)))
       sliced labels"
proof -
  from get_drug_label_info_Inr [OF assms] obtain limit params data results sliced labels total where
    a: "label_params arguments = Inr (limit, params)" and
    b: "client FDA_DRUG_LABEL_URL params w = (Inr data, w')" and
    c: "py_get data ''results'' (JArr []) = Inr results" and
    d: "py_slice_to results limit = Inr sliced" and
    m: "mapM process_label sliced = Inr labels" and
    r: "res = tool_result (JObj [(''total_results'', total), (''labels'', JArr labels)])"
    by blast
  show ?thesis
    apply (rule exI [of _ limit])
    apply (rule exI [of _ params])
    apply (rule exI [of _ data])
    apply (rule exI [of _ results])
    apply (rule exI [of _ sliced])
    apply (rule exI [of _ total])
    apply (rule exI [of _ labels])
    apply (intro conjI)
         apply (rule a)
        apply (rule b)
       apply (rule c)
      apply (rule d)
     apply (rule r)
    apply (rule list_all2_projection [OF mapM_Inr_D [OF m]])
    apply (erule process_label_projection)
    done
qed

theorem label_defaults_witness:
  "get_drug_label_info (serving [JObj [(''warnings'', JArr [JStr ''Keep dry'']),
                                        (''openfda'', JObj [(''route'', JArr [JStr ''ORAL''])])],
                                 JObj []])
      [(''drug_name'', JStr ''aspirin'')] 0 =
     (Inr (tool_result (JObj
        [(''total_results'', JInt 2),
         (''labels'', JArr
            [JObj (label_fields [(''warnings'', JArr [JStr ''Keep dry'']),
                                 (''openfda'', JObj [(''route'', JArr [JStr ''ORAL''])])]
                                [(''route'', JArr [JStr ''ORAL''])]),
             JObj (label_fields [] [])])])), 1) \<and>
   map_of (label_fields [(''warnings'', JArr [JStr ''Keep dry'']),
                         (''openfda'', JObj [(''route'', JArr [JStr ''ORAL''])])]
                        [(''route'', JArr [JStr ''ORAL''])]) ''route'' = Some (JArr [JStr ''ORAL'']) \<and>
   map_of (label_fields [(''warnings'', JArr [JStr ''Keep dry'']),
                         (''openfda'', JObj [(''route'', JArr [JStr ''ORAL''])])]
                        [(''route'', JArr [JStr ''ORAL''])]) ''brand_names'' = Some (JArr []) \<and>
   map_of (label_fields [] []) ''warnings'' = Some (JArr [JStr ''Not available'']) \<and>
   (\<exists>limit params data results sliced total labels.
     label_params [(''drug_name'', JStr ''aspirin'')] = Inr (limit, params) \<and>
     serving [JObj [(''warnings'', JArr [JStr ''Keep dry'']), (''openfda'', JObj [(''route'', JArr [JStr ''ORAL''])])], JObj []] FDA_DRUG_LABEL_URL params 0 = (Inr data, 1) \<and>
     py_get data ''results'' (JArr []) = Inr results \<and>
     py_slice_to results limit = Inr sliced \<and>
     tool_result (JObj
        [(''total_results'', JInt 2),
         (''labels'', JArr
            [JObj (label_fields [(''warnings'', JArr [JStr ''Keep dry'']),
                                 (''openfda'', JObj [(''route'', JArr [JStr ''ORAL''])])]
                                [(''route'', JArr [JStr ''ORAL''])]),
             JObj (label_fields [] [])])]) = tool_result (JObj [(''total_results'', total), (''labels'', JArr labels)]) \<and>
     list_all2
       (\<lambda>label projected. \<exists>kvs openfda fields.
          process_label label = Inr projected \<and>
          label = JObj kvs \<and>
          (map_of kvs ''openfda'' = None \<and> openfda = [] \<or> map_of kvs ''openfda'' = Some (JObj openfda)) \<and>
          projected = JObj fields \<and>
          map fst fields =
            [''brand_names'', ''generic_names'', ''manufacturer'', ''substance_names'', ''product_type'',
             ''route'', ''indications_and_usage'', ''warnings'', ''adverse_reactions'',
             ''dosage_and_administration''] \<and>
          (\<forall>(out, src)\<in>set [(''brand_names'', ''brand_name''), (''generic_names'', ''generic_name''),
                            (''manufacturer'', ''manufacturer_name''), (''substance_names'', ''substance_name''),
                            (''product_type'', ''product_type''), (''route'', ''route'')].
             map_of fields out = Some (case map_of openfda src of None \<Rightarrow> JArr [] | Some v \<Rightarrow> v)) \<and>
          (\<forall>k\<in>set [''indications_and_usage'', ''warnings'', ''adverse_reactions'', ''dosage_and_administration''].
             map_of fields k =
               Some (case map_of kvs k of None \<Rightarrow> JArr [JStr ''Not available''] | Some v \<Rightarrow> v)))
       sliced labels)"
proof -
  let ?l1 = "[(''warnings'', JArr [JStr ''Keep dry'']), (''openfda'', JObj [(''route'', JArr [JStr ''ORAL''])])]"
  have p1: "process_label (JObj ?l1) = Inr (JObj (label_fields ?l1 [(''route'', JArr [JStr ''ORAL''])]))"
    by (rule process_label_present) simp
  have p2: "process_label (JObj []) = Inr (JObj (label_fields [] []))"
    by (rule process_label_absent) simp
  have run: "get_drug_label_info (serving [JObj ?l1, JObj []]) [(''drug_name'', JStr ''aspirin'')] 0 =
     (Inr (tool_result (JObj
        [(''total_results'', JInt 2),
         (''labels'', JArr [JObj (label_fields ?l1 [(''route'', JArr [JStr ''ORAL''])]),
                            JObj (label_fields [] [])])])), 1)"
    unfolding get_drug_label_info_def label_params_def label_result_def
    by (simp add: run_defs p1 p2)
  have f1: "map_of (label_fields ?l1 [(''route'', JArr [JStr ''ORAL''])]) ''route'' = Some (JArr [JStr ''ORAL''])"
    by (simp add: label_fields_def)
  have f2: "map_of (label_fields ?l1 [(''route'', JArr [JStr ''ORAL''])]) ''brand_names'' = Some (JArr [])"
    by (simp add: label_fields_def)
  have f3: "map_of (label_fields [] []) ''warnings'' = Some (JArr [JStr ''Not available''])"
    by (simp add: label_fields_def)
  show ?thesis
    by (intro conjI run f1 f2 f3 label_defaults [OF run])
qed

subsection \<open>Slicing and projecting the results\<close>

lemma mapM_succeeds:
  "\<forall>x\<in>set xs. \<exists>y. f x = Inr y \<Longrightarrow> \<exists>ys. mapM f xs = Inr ys"
proof (induction xs)
  case Nil
  then show ?case by simp
next
  case (Cons x xs)
  then obtain y ys where "f x = Inr y" "mapM f xs = Inr ys" by auto
  then show ?case by simp
qed

lemma py_slice_to_JArr: "0 \<le> L \<Longrightarrow> py_slice_to (JArr rs) (JInt L) = Inr (take (nat L) rs)"
  by (simp add: py_slice_to_def index_of_def slice_opt_def slice_to_def)

lemma slice_mapM:
  assumes "0 \<le> L" and "\<forall>x\<in>set xs. \<exists>y. f x = Inr y"
  shows "\<exists>ys. bind (py_slice_to (JArr xs) (JInt L)) (mapM f) = Inr ys \<and>
     length ys = min (nat L) (length xs) \<and>
     list_all2 (\<lambda>x y. f x = Inr y) (take (length ys) xs) ys"
proof -
  from assms(2) have "\<forall>x\<in>set (take (nat L) xs). \<exists>y. f x = Inr y"
    by (auto dest: in_set_takeD)
  from mapM_succeeds [OF this] obtain ys where ys: "mapM f (take (nat L) xs) = Inr ys" ..
  from mapM_Inr_D [OF ys] have l: "list_all2 (\<lambda>x y. f x = Inr y) (take (nat L) xs) ys" .
  then have len: "length ys = min (nat L) (length xs)"
    by (auto dest: list_all2_lengthD)
  then have "take (length ys) xs = take (nat L) xs"
    by (simp add: min_def)
  with l len ys assms(1) show ?thesis
    by (simp add: py_slice_to_JArr)
qed

subsection \<open>The limit of \<^verbatim>\<open>get_drug_label_info\<close>\<close>

lemma mapM_replicate: "f x = Inr y \<Longrightarrow> mapM f (replicate n x) = Inr (replicate n y)"
  by (induction n) auto




subsection \<open>The limit of \<^verbatim>\<open>search_drug_recalls\<close>\<close>

lemma process_recall_JObj: "process_recall (JObj kvs) = Inr (JObj (recall_fields kvs))"
  unfolding process_recall_def recall_fields_def by simp

lemma recall_params_200:
  assumes "map_of arguments ''limit'' = Some (JInt 200)"
    and "recall_params arguments = Inr (limit, params)"
  shows "limit = JInt 200 \<and> (\<exists>search. params = [(''search'', JStr search), (''limit'', JInt 100)])"
proof -
  from assms(2) obtain drug_name where "args_item arguments ''drug_name'' = Inr drug_name"
    unfolding recall_params_def by (auto simp: bind_eq_Inr_iff)
  with assms show ?thesis
    unfolding recall_params_def by (simp add: args_get_def py_min_def Let_def) blast
qed

text \<open>
  C2, as the code has it. With the limit 200 the request carries the limit 100,
  and the tool returns the projections of the first 200 records of the list the
  upstream returns: there is no cut at 100 in the tool itself. The result has at
  most 200 elements, and at most 100 when the upstream returns no more than the 100
  it was asked for.
\<close>

theorem recalls_limit_200:
  assumes "map_of arguments ''limit'' = Some (JInt 200)"
    and "recall_params arguments = Inr (limit, params)"
    and "client FDA_ENFORCEMENT_URL params w = (Inr data, w')"
    and "py_get data ''results'' (JArr []) = Inr (JArr rs)"
    and "\<forall>r\<in>set rs. \<exists>p. process_recall r = Inr p"
    and "total_results data = Inr tot"
  shows "limit = JInt 200 \<and>
     (\<exists>search. params = [(''search'', JStr search), (''limit'', JInt 100)]) \<and>
     (\<exists>recalls.
        search_drug_recalls client arguments w =
          (Inr (tool_result (JObj [(''total_results'', tot), (''recalls'', JArr recalls)])), w') \<and>
        length recalls = min 200 (length rs) \<and>
        list_all2 (\<lambda>r p. process_recall r = Inr p) (take 200 rs) recalls \<and>
        (length rs \<le> 100 \<longrightarrow> length recalls \<le> 100))"
proof -
  from recall_params_200 [OF assms(1,2)] have lim: "limit = JInt 200"
    and ps: "\<exists>search. params = [(''search'', JStr search), (''limit'', JInt 100)]"
    by blast+
  have "(0::int) \<le> 200" by simp
  from slice_mapM [OF this assms(5)] obtain recalls where
    m: "bind (py_slice_to (JArr rs) (JInt 200)) (mapM process_recall) = Inr recalls" and
    len: "length recalls = min (nat 200) (length rs)" and
    all: "list_all2 (\<lambda>x y. process_recall x = Inr y) (take (length recalls) rs) recalls"
    by blast
  from len have len': "length recalls = min 200 (length rs)" by simp
  from len have "take (length recalls) rs = take 200 rs" by (simp add: min_def)
  with all have all': "list_all2 (\<lambda>x y. process_recall x = Inr y) (take 200 rs) recalls" by simp
  from m obtain sliced where s: "py_slice_to (JArr rs) (JInt 200) = Inr sliced"
    and ms: "mapM process_recall sliced = Inr recalls"
    by (auto simp: bind_eq_Inr_iff)
  have "recall_result (JInt 200) data =
      Inr (JObj [(''total_results'', tot), (''recalls'', JArr recalls)])"
    by (simp add: recall_result_def assms(4,6) s ms)
  then have run: "search_drug_recalls client arguments w =
      (Inr (tool_result (JObj [(''total_results'', tot), (''recalls'', JArr recalls)])), w')"
    by (simp add: search_drug_recalls_def assms(2,3) lim)
  from len' have le: "length rs \<le> 100 \<longrightarrow> length recalls \<le> 100" by simp
  from lim ps run len' all' le show ?thesis by blast
qed

theorem recalls_limit_200_witness:
  "\<exists>recalls.
     search_drug_recalls (serving [JObj [], JObj [(''status'', JStr ''Ongoing'')], JObj []])
         [(''drug_name'', JStr ''aspirin''), (''limit'', JInt 200)] 0 =
       (Inr (tool_result (JObj [(''total_results'', JInt 3), (''recalls'', JArr recalls)])), 1) \<and>
     length recalls = 3 \<and> length recalls \<le> 100"
proof -
  let ?args = "[(''drug_name'', JStr ''aspirin''), (''limit'', JInt 200)]"
  let ?avail = "[JObj [], JObj [(''status'', JStr ''Ongoing'')], JObj []]"
  let ?params = "[(''search'', JStr (''product_description:'' @ [CHR 0x22] @ ''aspirin'' @ [CHR 0x22])),
                  (''limit'', JInt 100)]"
  let ?data = "JObj [(''meta'', JObj [(''results'', JObj [(''total'', JInt 3)])]),
                     (''results'', JArr ?avail)]"
  have h1: "map_of ?args ''limit'' = Some (JInt 200)" by simp
  have h2: "recall_params ?args = Inr (JInt 200, ?params)"
    by (simp add: recall_params_def args_item_def args_get_def py_min_def truthy_def py_str_def Let_def)
  have h3: "serving ?avail FDA_ENFORCEMENT_URL ?params 0 = (Inr ?data, 1)"
    by (simp add: serving_def param_limit_def)
  have h4: "py_get ?data ''results'' (JArr []) = Inr (JArr ?avail)" by simp
  have h5: "\<forall>r\<in>set ?avail. \<exists>p. process_recall r = Inr p"
    by (simp add: process_recall_JObj)
  have h6: "total_results ?data = Inr (JInt 3)" by (simp add: total_results_def)
  have h7: "length ?avail \<le> 100" by simp
  from recalls_limit_200 [where client = "serving ?avail" and w = 0, OF h1 h2 h3 h4 h5 h6] obtain recalls where
    "search_drug_recalls (serving ?avail) ?args 0 =
       (Inr (tool_result (JObj [(''total_results'', JInt 3), (''recalls'', JArr recalls)])), 1)"
    and "length recalls = min 200 (length ?avail)"
    and "length ?avail \<le> 100 \<longrightarrow> length recalls \<le> 100"
    by blast
  with h7 have "search_drug_recalls (serving ?avail) ?args 0 =
       (Inr (tool_result (JObj [(''total_results'', JInt 3), (''recalls'', JArr recalls)])), 1) \<and>
     length recalls = 3 \<and> length recalls \<le> 100"
    by simp
  then show ?thesis by (rule exI)
qed

text \<open>
  The claim C2 as it is written fails: asked for 200 recalls, the tool requests
  100, and when the upstream nevertheless returns 101 records the tool returns all
  101 of them.
\<close>

theorem recalls_limit_200_counterexample:
  "search_drug_recalls (returning (replicate 101 (JObj [])))
       [(''drug_name'', JStr ''aspirin''), (''limit'', JInt 200)] 0 =
     (Inr (tool_result (JObj [(''total_results'', JInt 0),
                              (''recalls'', JArr (replicate 101 (JObj (recall_fields []))))])), 1) \<and>
   length (replicate 101 (JObj (recall_fields []))) = 101 \<and>
   \<not> length (replicate 101 (JObj (recall_fields []))) \<le> 100"
proof -
  let ?args = "[(''drug_name'', JStr ''aspirin''), (''limit'', JInt 200)]"
  let ?params = "[(''search'', JStr (''product_description:'' @ [CHR 0x22] @ ''aspirin'' @ [CHR 0x22])),
                  (''limit'', JInt 100)]"
  have h2: "recall_params ?args = Inr (JInt 200, ?params)"
    by (simp add: recall_params_def args_item_def args_get_def py_min_def truthy_def py_str_def Let_def)
  have m: "mapM process_recall (replicate 101 (JObj [])) = Inr (replicate 101 (JObj (recall_fields [])))"
    by (rule mapM_replicate) (rule process_recall_JObj)
  have s: "py_slice_to (JArr (replicate 101 (JObj []))) (JInt 200) = Inr (replicate 101 (JObj []))"
    by (simp add: py_slice_to_JArr)
  have r: "recall_result (JInt 200) (JObj [(''results'', JArr (replicate 101 (JObj [])))]) =
      Inr (JObj [(''total_results'', JInt 0),
                 (''recalls'', JArr (replicate 101 (JObj (recall_fields []))))])"
    by (simp add: recall_result_def s m total_results_def)
  have "search_drug_recalls (returning (replicate 101 (JObj []))) ?args 0 =
     (Inr (tool_result (JObj [(''total_results'', JInt 0),
                              (''recalls'', JArr (replicate 101 (JObj (recall_fields []))))])), 1)"
    by (simp add: search_drug_recalls_def h2 returning_def r)
  then show ?thesis by simp
qed

subsection \<open>The projection of an event\<close>

lemma mapM_reactions:
  "mapM (\<lambda>reaction. py_get reaction ''reactionmeddrapt'' (JStr ''Unknown'')) (map JObj rs) =
   Inr (map reaction_name rs)"
  by (induction rs) (simp_all add: reaction_name_def)

lemma mapM_drugs:
  "mapM (\<lambda>drug.
      bind (py_get drug ''medicinalproduct'' (JStr ''Unknown'')) (\<lambda>name.
      bind (py_get drug ''drugindication'' (JStr ''Unknown'')) (\<lambda>indication.
      Inr (JObj [(''name'', name), (''indication'', indication)])))) (map JObj ds) =
   Inr (map drug_entry ds)"
  by (induction ds) (simp_all add: drug_entry_def)

lemma process_event_no_patient:
  "map_of kvs ''patient'' = None \<Longrightarrow>
   process_event (JObj kvs) = Inr (JObj (event_fields kvs [] [] []))"
  unfolding process_event_def event_fields_def by (simp add: py_iter_def)

lemma process_event_patient:
  assumes "map_of kvs ''patient'' = Some (JObj patient)"
    and "map_of patient ''reaction'' = None \<and> rs = [] \<or>
         map_of patient ''reaction'' = Some (JArr (map JObj rs))"
    and "map_of patient ''drug'' = None \<and> ds = [] \<or>
         map_of patient ''drug'' = Some (JArr (map JObj ds))"
  shows "process_event (JObj kvs) =
     Inr (JObj (event_fields kvs patient (map reaction_name rs) (map drug_entry ds)))"
proof -
  have r: "bind (py_iter (case map_of patient ''reaction'' of Some v \<Rightarrow> v | None \<Rightarrow> JArr []))
             (mapM (\<lambda>reaction. py_get reaction ''reactionmeddrapt'' (JStr ''Unknown''))) =
           Inr (map reaction_name rs)"
    using assms(2) by (auto simp: py_iter_def mapM_reactions)
  have d: "bind (py_iter (case map_of patient ''drug'' of Some v \<Rightarrow> v | None \<Rightarrow> JArr []))
             (mapM (\<lambda>drug.
                bind (py_get drug ''medicinalproduct'' (JStr ''Unknown'')) (\<lambda>name.
                bind (py_get drug ''drugindication'' (JStr ''Unknown'')) (\<lambda>indication.
                Inr (JObj [(''name'', name), (''indication'', indication)]))))) =
           Inr (map drug_entry ds)"
    using assms(3) by (auto simp: py_iter_def mapM_drugs)
  show ?thesis
    unfolding process_event_def event_fields_def
    by (simp add: assms(1) r d)
qed

text \<open>
  C10. An event without a \<^verbatim>\<open>patient\<close> entry is projected with the empty list for
  \<^verbatim>\<open>reactions\<close> and for \<^verbatim>\<open>drugs\<close> and with \<^verbatim>\<open>Unknown\<close> for
  \<^verbatim>\<open>patient_age\<close> and \<^verbatim>\<open>patient_sex\<close>. With a patient object, a missing
  \<^verbatim>\<open>reaction\<close> or \<^verbatim>\<open>drug\<close> entry gives the empty list, and a list of objects
  gives one element per object, in which only the missing
  \<^verbatim>\<open>reactionmeddrapt\<close>, \<^verbatim>\<open>medicinalproduct\<close> or \<^verbatim>\<open>drugindication\<close> is
  replaced by \<^verbatim>\<open>Unknown\<close>.
\<close>

theorem event_sequences_default_empty:
  "(map_of kvs ''patient'' = None \<longrightarrow>
      (\<exists>fields. process_event (JObj kvs) = Inr (JObj fields) \<and>
         map_of fields ''reactions'' = Some (JArr []) \<and>
         map_of fields ''drugs'' = Some (JArr []) \<and>
         map_of fields ''patient_age'' = Some (JStr ''Unknown'') \<and>
         map_of fields ''patient_sex'' = Some (JStr ''Unknown''))) \<and>
   (map_of kvs ''patient'' = Some (JObj patient) \<and>
    (map_of patient ''reaction'' = None \<and> rs = [] \<or>
     map_of patient ''reaction'' = Some (JArr (map JObj rs))) \<and>
    (map_of patient ''drug'' = None \<and> ds = [] \<or>
     map_of patient ''drug'' = Some (JArr (map JObj ds))) \<longrightarrow>
      (\<exists>fields. process_event (JObj kvs) = Inr (JObj fields) \<and>
         map_of fields ''reactions'' =
           Some (JArr (map (\<lambda>reaction.
              case map_of reaction ''reactionmeddrapt'' of Some v \<Rightarrow> v | None \<Rightarrow> JStr ''Unknown'') rs)) \<and>
         map_of fields ''drugs'' =
           Some (JArr (map (\<lambda>drug.
              JObj [(''name'',
                       case map_of drug ''medicinalproduct'' of Some v \<Rightarrow> v | None \<Rightarrow> JStr ''Unknown''),
                    (''indication'',
                       case map_of drug ''drugindication'' of Some v \<Rightarrow> v | None \<Rightarrow> JStr ''Unknown'')]) ds))))"
proof (intro conjI impI)
  assume "map_of kvs ''patient'' = None"
  then have "process_event (JObj kvs) = Inr (JObj (event_fields kvs [] [] []))"
    by (rule process_event_no_patient)
  moreover have "map_of (event_fields kvs [] [] []) ''reactions'' = Some (JArr []) \<and>
         map_of (event_fields kvs [] [] []) ''drugs'' = Some (JArr []) \<and>
         map_of (event_fields kvs [] [] []) ''patient_age'' = Some (JStr ''Unknown'') \<and>
         map_of (event_fields kvs [] [] []) ''patient_sex'' = Some (JStr ''Unknown'')"
    by (simp add: event_fields_def)
  ultimately show "\<exists>fields. process_event (JObj kvs) = Inr (JObj fields) \<and>
         map_of fields ''reactions'' = Some (JArr []) \<and>
         map_of fields ''drugs'' = Some (JArr []) \<and>
         map_of fields ''patient_age'' = Some (JStr ''Unknown'') \<and>
         map_of fields ''patient_sex'' = Some (JStr ''Unknown'')"
    by blast
next
  let ?fields = "event_fields kvs patient (map reaction_name rs) (map drug_entry ds)"
  assume a: "map_of kvs ''patient'' = Some (JObj patient) \<and>
    (map_of patient ''reaction'' = None \<and> rs = [] \<or>
     map_of patient ''reaction'' = Some (JArr (map JObj rs))) \<and>
    (map_of patient ''drug'' = None \<and> ds = [] \<or>
     map_of patient ''drug'' = Some (JArr (map JObj ds)))"
  then have p: "process_event (JObj kvs) = Inr (JObj ?fields)"
    by (intro process_event_patient) simp_all
  have r: "map_of ?fields ''reactions'' =
           Some (JArr (map (\<lambda>reaction.
              case map_of reaction ''reactionmeddrapt'' of Some v \<Rightarrow> v | None \<Rightarrow> JStr ''Unknown'') rs))"
    by (simp add: event_fields_def reaction_name_def)
  have d: "map_of ?fields ''drugs'' =
           Some (JArr (map (\<lambda>drug.
              JObj [(''name'',
                       case map_of drug ''medicinalproduct'' of Some v \<Rightarrow> v | None \<Rightarrow> JStr ''Unknown''),
                    (''indication'',
                       case map_of drug ''drugindication'' of Some v \<Rightarrow> v | None \<Rightarrow> JStr ''Unknown'')]) ds))"
    by (simp add: event_fields_def drug_entry_def)
  show "\<exists>fields. process_event (JObj kvs) = Inr (JObj fields) \<and>
         map_of fields ''reactions'' =
           Some (JArr (map (\<lambda>reaction.
              case map_of reaction ''reactionmeddrapt'' of Some v \<Rightarrow> v | None \<Rightarrow> JStr ''Unknown'') rs)) \<and>
         map_of fields ''drugs'' =
           Some (JArr (map (\<lambda>drug.
              JObj [(''name'',
                       case map_of drug ''medicinalproduct'' of Some v \<Rightarrow> v | None \<Rightarrow> JStr ''Unknown''),
                    (''indication'',
                       case map_of drug ''drugindication'' of Some v \<Rightarrow> v | None \<Rightarrow> JStr ''Unknown'')]) ds))"
    by (rule exI [of _ ?fields]) (intro conjI p r d)
qed

theorem event_sequences_default_empty_witness:
  "map_of [(''serious'', JStr ''1'')] ''patient'' = None \<and>
   (\<exists>fields. process_event (JObj [(''serious'', JStr ''1'')]) = Inr (JObj fields) \<and>
      map_of fields ''reactions'' = Some (JArr []) \<and>
      map_of fields ''drugs'' = Some (JArr []) \<and>
      map_of fields ''patient_age'' = Some (JStr ''Unknown'') \<and>
      map_of fields ''patient_sex'' = Some (JStr ''Unknown'')) \<and>
   (\<exists>fields.
      process_event
        (JObj [(''patient'',
                JObj [(''reaction'', JArr [JObj [], JObj [(''reactionmeddrapt'', JStr ''Nausea'')]]),
                      (''drug'', JArr [JObj [(''medicinalproduct'', JStr ''ASPIRIN'')]])])]) =
        Inr (JObj fields) \<and>
      map_of fields ''reactions'' = Some (JArr [JStr ''Unknown'', JStr ''Nausea'']) \<and>
      map_of fields ''drugs'' =
        Some (JArr [JObj [(''name'', JStr ''ASPIRIN''), (''indication'', JStr ''Unknown'')]]))"
proof -
  let ?patient = "[(''reaction'', JArr [JObj [], JObj [(''reactionmeddrapt'', JStr ''Nausea'')]]),
                   (''drug'', JArr [JObj [(''medicinalproduct'', JStr ''ASPIRIN'')]])]"
  have a: "map_of [(''serious'', JStr ''1'')] ''patient'' = None" by simp
  have b: "map_of [(''patient'', JObj ?patient)] ''patient'' = Some (JObj ?patient) \<and>
    (map_of ?patient ''reaction'' = None \<and> [[], [(''reactionmeddrapt'', JStr ''Nausea'')]] = [] \<or>
     map_of ?patient ''reaction'' =
       Some (JArr (map JObj [[], [(''reactionmeddrapt'', JStr ''Nausea'')]]))) \<and>
    (map_of ?patient ''drug'' = None \<and> [[(''medicinalproduct'', JStr ''ASPIRIN'')]] = [] \<or>
     map_of ?patient ''drug'' = Some (JArr (map JObj [[(''medicinalproduct'', JStr ''ASPIRIN'')]])))"
    by simp
  from event_sequences_default_empty [of "[(''serious'', JStr ''1'')]" "[]" "[]" "[]"] a
  have 1: "\<exists>fields. process_event (JObj [(''serious'', JStr ''1'')]) = Inr (JObj fields) \<and>
      map_of fields ''reactions'' = Some (JArr []) \<and>
      map_of fields ''drugs'' = Some (JArr []) \<and>
      map_of fields ''patient_age'' = Some (JStr ''Unknown'') \<and>
      map_of fields ''patient_sex'' = Some (JStr ''Unknown'')"
    by blast
  from event_sequences_default_empty [of "[(''patient'', JObj ?patient)]" ?patient
      "[[], [(''reactionmeddrapt'', JStr ''Nausea'')]]" "[[(''medicinalproduct'', JStr ''ASPIRIN'')]]"] b
  have "\<exists>fields. process_event (JObj [(''patient'', JObj ?patient)]) = Inr (JObj fields) \<and>
         map_of fields ''reactions'' =
           Some (JArr (map (\<lambda>reaction.
              case map_of reaction ''reactionmeddrapt'' of Some v \<Rightarrow> v | None \<Rightarrow> JStr ''Unknown'')
                [[], [(''reactionmeddrapt'', JStr ''Nausea'')]])) \<and>
         map_of fields ''drugs'' =
           Some (JArr (map (\<lambda>drug.
              JObj [(''name'',
                       case map_of drug ''medicinalproduct'' of Some v \<Rightarrow> v | None \<Rightarrow> JStr ''Unknown''),
                    (''indication'',
                       case map_of drug ''drugindication'' of Some v \<Rightarrow> v | None \<Rightarrow> JStr ''Unknown'')])
                [[(''medicinalproduct'', JStr ''ASPIRIN'')]]))"
    by blast
  then have 2: "\<exists>fields. process_event (JObj [(''patient'', JObj ?patient)]) = Inr (JObj fields) \<and>
      map_of fields ''reactions'' = Some (JArr [JStr ''Unknown'', JStr ''Nausea'']) \<and>
      map_of fields ''drugs'' =
        Some (JArr [JObj [(''name'', JStr ''ASPIRIN''), (''indication'', JStr ''Unknown'')]])"
    by simp
  from a 1 2 show ?thesis by (intro conjI)
qed

subsection \<open>The events of \<^verbatim>\<open>search_drug_events\<close>\<close>














subsection \<open>Reading a resource\<close>

lemma handle_read_resource_accepting:
  "handle_read_resource accepting client today uri st =
     (case read_resource_body client today uri st of
        (Inr data, w', lg) \<Rightarrow> (Inr [text_content (json_dumps data)], w', lg)
      | (Inl e, w', lg) \<Rightarrow>
          (Inr [text_content (''Error reading resource: '' @ exn_str e)],
           w',
           lg @ [(''ERROR'', ''Error reading resource '' @ uri @ '': '' @ exn_str e)]))"
  unfolding handle_read_resource_def accepting_def
  by (simp split: prod.splits sum.splits)

lemma handle_read_resource_rejecting:
  "\<exists>w' lg. handle_read_resource (rejecting msg) client today uri st = (Inl (ValidationError msg), w', lg)"
proof -
  obtain fetched w' lg where b: "read_resource_body client today uri st = (fetched, w', lg)"
    by (cases "read_resource_body client today uri st") auto
  have "bind fetched (\<lambda>data. rejecting msg [text_content (json_dumps data)]) = Inl (ValidationError msg) \<or>
        (\<exists>e. fetched = Inl e)"
    by (cases fetched) (simp_all add: rejecting_def)
  then show ?thesis
    unfolding handle_read_resource_def b
    by (auto simp: rejecting_def)
qed

text \<open>
  C9 fails on the code. The handler passes a \<^verbatim>\<open>TextContent\<close> to the constructor
  of \<^verbatim>\<open>ReadResourceResult\<close>. With the constructor that rejects it, the read of
  \<^verbatim>\<open>fda://recalls/recent\<close> from an upstream that answers, which is a successful
  fetch, returns no payload: the \<^verbatim>\<open>ValidationError\<close> of line 192 is caught and
  logged, and the one of line 202 leaves the handler. The read of an unknown
  address ends the same way.
\<close>

theorem read_resource_validation_error_propagates:
  "handle_read_resource (rejecting msg) (returning rs) today ''fda://recalls/recent'' (0, []) =
     (Inl (ValidationError msg), 1,
      [(''ERROR'', ''Error reading resource fda://recalls/recent: '' @ msg)]) \<and>
   handle_read_resource (rejecting msg) (returning rs) today ''fda://nowhere'' (0, []) =
     (Inl (ValidationError msg), 0,
      [(''ERROR'', ''Error reading resource fda://nowhere: Unknown resource URI: fda://nowhere'')])"
proof (rule conjI)
  have b: "read_resource_body (returning rs) today ''fda://recalls/recent'' (0, []) =
      (Inr (JObj [(''results'', JArr rs)]), 1, [])"
    by (simp add: read_resource_body_def get_recent_recalls_def returning_def)
  show "handle_read_resource (rejecting msg) (returning rs) today ''fda://recalls/recent'' (0, []) =
     (Inl (ValidationError msg), 1,
      [(''ERROR'', ''Error reading resource fda://recalls/recent: '' @ msg)])"
    unfolding handle_read_resource_def b
    by (simp add: rejecting_def exn_str_def)
  have u: "read_resource_body (returning rs) today ''fda://nowhere'' (0, []) =
      (Inl (ValueError ''Unknown resource URI: fda://nowhere''), 0, [])"
    by (simp add: read_resource_body_def)
  show "handle_read_resource (rejecting msg) (returning rs) today ''fda://nowhere'' (0, []) =
     (Inl (ValidationError msg), 0,
      [(''ERROR'', ''Error reading resource fda://nowhere: Unknown resource URI: fda://nowhere'')])"
    unfolding handle_read_resource_def u
    by (simp add: rejecting_def exn_str_def)
qed

subsection \<open>The resource of the popular drug labels\<close>

lemma extend_results_append:
  "bind response (extend_results all_labels) =
     (case bind response (extend_results []) of Inr xs \<Rightarrow> Inr (all_labels @ xs) | Inl e \<Rightarrow> Inl e)"
proof (cases response)
  case (Inl e)
  then show ?thesis by simp
next
  case (Inr data)
  show ?thesis
  proof (cases "py_get data ''results'' JNull")
    case (Inl e)
    with Inr show ?thesis by (simp add: extend_results_def)
  next
    case results: (Inr results)
    show ?thesis
    proof (cases "py_iter results")
      case (Inl e)
      with Inr results show ?thesis by (simp add: extend_results_def)
    next
      case xs: (Inr xs)
      with Inr results show ?thesis by (simp add: extend_results_def)
    qed
  qed
qed

lemma popular_loop_step:
  assumes "client FDA_DRUG_LABEL_URL (popular_params drug) w = (response, w')"
  shows "popular_loop client (drug # drugs) all_labels (w, lg) =
     popular_loop client drugs (all_labels @ contribution response) (w', lg @ warning drug response)"
proof (cases "bind response (extend_results [])")
  case (Inl e)
  then have "bind response (extend_results all_labels) = Inl e"
    by (simp add: extend_results_append [of response all_labels])
  with Inl assms show ?thesis
    by (simp add: contribution_def warning_def)
next
  case (Inr xs)
  then have "bind response (extend_results all_labels) = Inr (all_labels @ xs)"
    by (simp add: extend_results_append [of response all_labels])
  with Inr assms show ?thesis
    by (simp add: contribution_def warning_def)
qed

lemma recording_step:
  "client url ps w = (response, w') \<Longrightarrow>
   recording client url ps (w, reqs) = (response, (w', reqs @ [(url, ps)]))"
  by (simp add: recording_def)

lemma take_3_popular_drugs: "take 3 popular_drugs = [''aspirin'', ''ibuprofen'', ''acetaminophen'']"
  by (simp add: popular_drugs_def)

lemma popular_three:
  assumes "client FDA_DRUG_LABEL_URL (popular_params ''aspirin'') w0 = (r1, w1)"
    and "client FDA_DRUG_LABEL_URL (popular_params ''ibuprofen'') w1 = (r2, w2)"
    and "client FDA_DRUG_LABEL_URL (popular_params ''acetaminophen'') w2 = (r3, w3)"
  shows "get_popular_drug_labels client (w0, lg) =
     (JObj [(''results'', JArr (contribution r1 @ contribution r2 @ contribution r3))],
        w3,
        lg @ warning ''aspirin'' r1 @ warning ''ibuprofen'' r2 @ warning ''acetaminophen'' r3)"
proof -
  have "popular_loop client (take 3 popular_drugs) [] (w0, lg) =
      popular_loop client [''aspirin'', ''ibuprofen'', ''acetaminophen''] [] (w0, lg)"
    by (simp only: take_3_popular_drugs)
  also have "\<dots> = popular_loop client [''ibuprofen'', ''acetaminophen''] ([] @ contribution r1)
        (w1, lg @ warning ''aspirin'' r1)"
    by (rule popular_loop_step) (rule assms(1))
  also have "\<dots> = popular_loop client [''acetaminophen''] (([] @ contribution r1) @ contribution r2)
        (w2, (lg @ warning ''aspirin'' r1) @ warning ''ibuprofen'' r2)"
    by (rule popular_loop_step) (rule assms(2))
  also have "\<dots> = popular_loop client [] ((([] @ contribution r1) @ contribution r2) @ contribution r3)
        (w3, ((lg @ warning ''aspirin'' r1) @ warning ''ibuprofen'' r2) @ warning ''acetaminophen'' r3)"
    by (rule popular_loop_step) (rule assms(3))
  also have "\<dots> = (contribution r1 @ contribution r2 @ contribution r3,
        w3, lg @ warning ''aspirin'' r1 @ warning ''ibuprofen'' r2 @ warning ''acetaminophen'' r3)"
    by simp
  finally have loop: "popular_loop client (take 3 popular_drugs) [] (w0, lg) =
      (contribution r1 @ contribution r2 @ contribution r3,
        w3, lg @ warning ''aspirin'' r1 @ warning ''ibuprofen'' r2 @ warning ''acetaminophen'' r3)" .
  show ?thesis
    unfolding get_popular_drug_labels_def loop by simp
qed

text \<open>
  C7. The catalog has five names. Whatever the upstream does, reading the resource
  issues exactly three requests, for the first three names, one after the other,
  and returns a value, which the read of \<^verbatim>\<open>fda://drug-labels/popular\<close> takes
  as its data: the list of what each response contributes, in order, with
  one warning logged for each request that failed. A failed request contributes
  nothing and takes nothing away: a response whose \<^verbatim>\<open>results\<close> is a list
  contributes that list, whatever happened to the other two requests.
\<close>

theorem popular_labels_partial_failure:
  assumes "client FDA_DRUG_LABEL_URL (popular_params ''aspirin'') w0 = (r1, w1)"
    and "client FDA_DRUG_LABEL_URL (popular_params ''ibuprofen'') w1 = (r2, w2)"
    and "client FDA_DRUG_LABEL_URL (popular_params ''acetaminophen'') w2 = (r3, w3)"
  shows "length popular_drugs = 5 \<and>
     get_popular_drug_labels client (w0, lg) =
       (JObj [(''results'', JArr (contribution r1 @ contribution r2 @ contribution r3))],
        w3,
        lg @ warning ''aspirin'' r1 @ warning ''ibuprofen'' r2 @ warning ''acetaminophen'' r3) \<and>
     get_popular_drug_labels (recording client) ((w0, []), lg) =
       (JObj [(''results'', JArr (contribution r1 @ contribution r2 @ contribution r3))],
        (w3, [(FDA_DRUG_LABEL_URL, popular_params ''aspirin''),
              (FDA_DRUG_LABEL_URL, popular_params ''ibuprofen''),
              (FDA_DRUG_LABEL_URL, popular_params ''acetaminophen'')]),
        lg @ warning ''aspirin'' r1 @ warning ''ibuprofen'' r2 @ warning ''acetaminophen'' r3) \<and>
     read_resource_body (recording client) today ''fda://drug-labels/popular'' ((w0, []), lg) =
       (Inr (JObj [(''results'', JArr (contribution r1 @ contribution r2 @ contribution r3))]),
        (w3, [(FDA_DRUG_LABEL_URL, popular_params ''aspirin''),
              (FDA_DRUG_LABEL_URL, popular_params ''ibuprofen''),
              (FDA_DRUG_LABEL_URL, popular_params ''acetaminophen'')]),
        lg @ warning ''aspirin'' r1 @ warning ''ibuprofen'' r2 @ warning ''acetaminophen'' r3) \<and>
     (\<forall>e drug. contribution (Inl e) = [] \<and>
        warning drug (Inl e) = [(''WARNING'', ''Error fetching data for '' @ drug @ '': '' @ exn_str e)]) \<and>
     (\<forall>data rs drug. py_get data ''results'' JNull = Inr (JArr rs) \<longrightarrow>
        contribution (Inr data) = rs \<and> warning drug (Inr data) = [])"
proof (intro conjI)
  show "length popular_drugs = 5"
    by (simp add: popular_drugs_def)
  show "get_popular_drug_labels client (w0, lg) =
       (JObj [(''results'', JArr (contribution r1 @ contribution r2 @ contribution r3))],
        w3,
        lg @ warning ''aspirin'' r1 @ warning ''ibuprofen'' r2 @ warning ''acetaminophen'' r3)"
    by (rule popular_three) (rule assms)+
  have "get_popular_drug_labels (recording client) ((w0, []), lg) =
       (JObj [(''results'', JArr (contribution r1 @ contribution r2 @ contribution r3))],
        (w3, (([] @ [(FDA_DRUG_LABEL_URL, popular_params ''aspirin'')]) @
              [(FDA_DRUG_LABEL_URL, popular_params ''ibuprofen'')]) @
              [(FDA_DRUG_LABEL_URL, popular_params ''acetaminophen'')]),
        lg @ warning ''aspirin'' r1 @ warning ''ibuprofen'' r2 @ warning ''acetaminophen'' r3)"
    by (rule popular_three) (rule recording_step, rule assms)+
  then have rec: "get_popular_drug_labels (recording client) ((w0, []), lg) =
       (JObj [(''results'', JArr (contribution r1 @ contribution r2 @ contribution r3))],
        (w3, [(FDA_DRUG_LABEL_URL, popular_params ''aspirin''),
              (FDA_DRUG_LABEL_URL, popular_params ''ibuprofen''),
              (FDA_DRUG_LABEL_URL, popular_params ''acetaminophen'')]),
        lg @ warning ''aspirin'' r1 @ warning ''ibuprofen'' r2 @ warning ''acetaminophen'' r3)"
    by simp
  show "get_popular_drug_labels (recording client) ((w0, []), lg) =
       (JObj [(''results'', JArr (contribution r1 @ contribution r2 @ contribution r3))],
        (w3, [(FDA_DRUG_LABEL_URL, popular_params ''aspirin''),
              (FDA_DRUG_LABEL_URL, popular_params ''ibuprofen''),
              (FDA_DRUG_LABEL_URL, popular_params ''acetaminophen'')]),
        lg @ warning ''aspirin'' r1 @ warning ''ibuprofen'' r2 @ warning ''acetaminophen'' r3)"
    by (rule rec)
  show "read_resource_body (recording client) today ''fda://drug-labels/popular'' ((w0, []), lg) =
       (Inr (JObj [(''results'', JArr (contribution r1 @ contribution r2 @ contribution r3))]),
        (w3, [(FDA_DRUG_LABEL_URL, popular_params ''aspirin''),
              (FDA_DRUG_LABEL_URL, popular_params ''ibuprofen''),
              (FDA_DRUG_LABEL_URL, popular_params ''acetaminophen'')]),
        lg @ warning ''aspirin'' r1 @ warning ''ibuprofen'' r2 @ warning ''acetaminophen'' r3)"
    unfolding read_resource_body_def rec by simp
  show "\<forall>e drug. contribution (Inl e) = [] \<and>
        warning drug (Inl e) = [(''WARNING'', ''Error fetching data for '' @ drug @ '': '' @ exn_str e)]"
    by (simp add: contribution_def warning_def)
  show "\<forall>data rs drug. py_get data ''results'' JNull = Inr (JArr rs) \<longrightarrow>
        contribution (Inr data) = rs \<and> warning drug (Inr data) = []"
    by (auto simp: contribution_def warning_def extend_results_def py_iter_def truthy_def
          split: list.splits)
qed

theorem popular_labels_partial_failure_witness:
  "get_popular_drug_labels flaky (0, []) =
     (JObj [(''results'', JArr [JObj [(''q'', JStr (label_search ''aspirin''))],
                                 JObj [(''q'', JStr (label_search ''acetaminophen''))]])],
      3,
      [(''WARNING'', ''Error fetching data for ibuprofen: timeout'')]) \<and>
   get_popular_drug_labels (recording flaky) ((0, []), []) =
     (JObj [(''results'', JArr [JObj [(''q'', JStr (label_search ''aspirin''))],
                                 JObj [(''q'', JStr (label_search ''acetaminophen''))]])],
      (3, [(FDA_DRUG_LABEL_URL, popular_params ''aspirin''),
           (FDA_DRUG_LABEL_URL, popular_params ''ibuprofen''),
           (FDA_DRUG_LABEL_URL, popular_params ''acetaminophen'')]),
      [(''WARNING'', ''Error fetching data for ibuprofen: timeout'')]) \<and>
   read_resource_body (recording flaky) 0 ''fda://drug-labels/popular'' ((0, []), []) =
     (Inr (JObj [(''results'', JArr [JObj [(''q'', JStr (label_search ''aspirin''))],
                                      JObj [(''q'', JStr (label_search ''acetaminophen''))]])]),
      (3, [(FDA_DRUG_LABEL_URL, popular_params ''aspirin''),
           (FDA_DRUG_LABEL_URL, popular_params ''ibuprofen''),
           (FDA_DRUG_LABEL_URL, popular_params ''acetaminophen'')]),
      [(''WARNING'', ''Error fetching data for ibuprofen: timeout'')])"
proof -
  let ?r1 = "Inr (JObj [(''results'', JArr [JObj [(''q'', JStr (label_search ''aspirin''))]])])"
  let ?r2 = "Inl (UpstreamError ''timeout'')"
  let ?r3 = "Inr (JObj [(''results'', JArr [JObj [(''q'', JStr (label_search ''acetaminophen''))]])])"
  have h1: "flaky FDA_DRUG_LABEL_URL (popular_params ''aspirin'') 0 = (?r1, 1)"
    by (simp add: flaky_def popular_params_def label_search_def)
  have h2: "flaky FDA_DRUG_LABEL_URL (popular_params ''ibuprofen'') 1 = (?r2, 2)"
    by (simp add: flaky_def)
  have h3: "flaky FDA_DRUG_LABEL_URL (popular_params ''acetaminophen'') 2 = (?r3, 3)"
    by (simp add: flaky_def popular_params_def label_search_def)
  have c1: "contribution ?r1 = [JObj [(''q'', JStr (label_search ''aspirin''))]]"
    by (simp add: contribution_def extend_results_def truthy_def py_iter_def)
  have c2: "contribution ?r2 = []"
    by (simp add: contribution_def)
  have c3: "contribution ?r3 = [JObj [(''q'', JStr (label_search ''acetaminophen''))]]"
    by (simp add: contribution_def extend_results_def truthy_def py_iter_def)
  have w1: "warning ''aspirin'' ?r1 = []"
    by (simp add: warning_def extend_results_def truthy_def py_iter_def)
  have w2: "warning ''ibuprofen'' ?r2 = [(''WARNING'', ''Error fetching data for ibuprofen: timeout'')]"
    by (simp add: warning_def exn_str_def)
  have w3: "warning ''acetaminophen'' ?r3 = []"
    by (simp add: warning_def extend_results_def truthy_def py_iter_def)
  note t = popular_labels_partial_failure [where client = flaky and lg = "[]" and today = 0, OF h1 h2 h3]
  from t have a: "get_popular_drug_labels flaky (0, []) =
       (JObj [(''results'', JArr (contribution ?r1 @ contribution ?r2 @ contribution ?r3))],
        3,
        [] @ warning ''aspirin'' ?r1 @ warning ''ibuprofen'' ?r2 @ warning ''acetaminophen'' ?r3)"
    by (elim conjE)
  from t have b: "get_popular_drug_labels (recording flaky) ((0, []), []) =
       (JObj [(''results'', JArr (contribution ?r1 @ contribution ?r2 @ contribution ?r3))],
        (3, [(FDA_DRUG_LABEL_URL, popular_params ''aspirin''),
             (FDA_DRUG_LABEL_URL, popular_params ''ibuprofen''),
             (FDA_DRUG_LABEL_URL, popular_params ''acetaminophen'')]),
        [] @ warning ''aspirin'' ?r1 @ warning ''ibuprofen'' ?r2 @ warning ''acetaminophen'' ?r3)"
    by (elim conjE)
  from t have c: "read_resource_body (recording flaky) 0 ''fda://drug-labels/popular'' ((0, []), []) =
       (Inr (JObj [(''results'', JArr (contribution ?r1 @ contribution ?r2 @ contribution ?r3))]),
        (3, [(FDA_DRUG_LABEL_URL, popular_params ''aspirin''),
             (FDA_DRUG_LABEL_URL, popular_params ''ibuprofen''),
             (FDA_DRUG_LABEL_URL, popular_params ''acetaminophen'')]),
        [] @ warning ''aspirin'' ?r1 @ warning ''ibuprofen'' ?r2 @ warning ''acetaminophen'' ?r3)"
    by (elim conjE)
  show ?thesis
    unfolding a b c c1 c2 c3 w1 w2 w3 by simp
qed

end
